theory Spec2Isabelle
  imports Main "HOL-Library.Word" "HOL-Library.Extended_Nat"
begin

section \<open>The remote robot bridge of gym\_miniworld (envs/remotebot.py)\<close>

text \<open>
  The development embeds \<^verbatim>\<open>recv_array\<close> and the class \<^verbatim>\<open>RemoteBot\<close> of
  \<^verbatim>\<open>gym_miniworld/envs/remotebot.py\<close>, and the constructors of the simulated
  environments \<^verbatim>\<open>Hallway\<close>, \<^verbatim>\<open>ThreeRooms\<close> and \<^verbatim>\<open>SimToRealGoTo\<close>.
  Python exceptions are values, the ZeroMQ socket is an explicit state (what was
  written, what the peer delivers), and a blocking receive on a socket whose peer
  delivers nothing more is the outcome \<open>Blocked\<close>: the call does not return.
\<close>

subsection \<open>Values, exceptions, outcomes\<close>

type_synonym byte = "8 word"
type_synonym bytes = "byte list"

text \<open>
  What \<^verbatim>\<open>send_json\<close> is given and \<^verbatim>\<open>recv_json\<close> returns: Python objects built from
  JSON. Numbers are Python's unbounded integers; JSON floats and booleans are left out of
  the value type. A dict is the list of its items in insertion order.
\<close>

datatype json =
  JNull
| JInt int
| JStr string
| JList "json list"
| JObj "(string \<times> json) list"

datatype exn = ValueError | TypeError | KeyError | AttributeError | AssertionError | ZMQError

text \<open>A call stops early by raising, or by never returning from a blocking receive.\<close>

datatype stop = Raised exn | Blocked

text \<open>Subscription \<^verbatim>\<open>md[k]\<close> with a string key: only a dict has it.\<close>

fun getitem :: "json \<Rightarrow> string \<Rightarrow> stop + json" where
  "getitem (JObj kvs) k =
     (case map_of kvs k of None \<Rightarrow> Inl (Raised KeyError) | Some v \<Rightarrow> Inr v)"
| "getitem _ k = Inl (Raised TypeError)"

subsection \<open>The ZeroMQ PAIR socket\<close>

text \<open>
  \<open>sent\<close> is the log of the objects written with \<^verbatim>\<open>send_json\<close>, oldest first;
  \<open>inbox\<close> is the sequence of messages the peer delivers, next first. The socket owns
  the connection until it is closed.
\<close>

record zmq_socket =
  closed :: bool
  sent :: "json list"
  inbox :: "bytes list"

definition send_json :: "zmq_socket \<Rightarrow> json \<Rightarrow> (stop + unit) \<times> zmq_socket" where
  "send_json ch obj =
     (if closed ch then (Inl (Raised ZMQError), ch)
      else (Inr (), ch\<lparr>sent := sent ch @ [obj]\<rparr>))"

definition recv :: "zmq_socket \<Rightarrow> (stop + bytes) \<times> zmq_socket" where
  "recv ch =
     (if closed ch then (Inl (Raised ZMQError), ch)
      else case inbox ch of
             [] \<Rightarrow> (Inl Blocked, ch)
           | m # ms \<Rightarrow> (Inr m, ch\<lparr>inbox := ms\<rparr>))"

text \<open>
  \<^verbatim>\<open>recv_json\<close> receives one message and parses it. The parser \<^verbatim>\<open>json.loads\<close> is a
  parameter \<open>loads\<close>; \<open>None\<close> stands for its \<^verbatim>\<open>JSONDecodeError\<close>, a \<^verbatim>\<open>ValueError\<close>.
\<close>

definition recv_json ::
  "(bytes \<Rightarrow> json option) \<Rightarrow> zmq_socket \<Rightarrow> (stop + json) \<times> zmq_socket" where
  "recv_json loads ch =
     (case recv ch of
        (Inl e, ch') \<Rightarrow> (Inl e, ch')
      | (Inr m, ch') \<Rightarrow>
          (case loads m of
             None \<Rightarrow> (Inl (Raised ValueError), ch')
           | Some j \<Rightarrow> (Inr j, ch')))"

subsection \<open>The numpy array, \<^verbatim>\<open>frombuffer\<close> and \<^verbatim>\<open>reshape\<close>\<close>

text \<open>
  An array made by \<^verbatim>\<open>frombuffer\<close> is a view of the buffer: element type, shape and the
  bytes themselves. \<^verbatim>\<open>tobytes\<close> gives the bytes back.
\<close>

record ndarray =
  dtype :: string
  itemsize :: nat
  shape :: "int list"
  data :: bytes

definition tobytes :: "ndarray \<Rightarrow> bytes" where
  "tobytes A = data A"

text \<open>
  The registry: numpy's fixed-size scalar types by name, with the size of one element.
  numpy understands further spellings of a type (aliases, byte-order prefixes, sized
  strings); the registry of the model is these twelve names.
\<close>

definition scalar_types :: "(string \<times> nat) list" where
  "scalar_types =
     [(''bool'', 1), (''int8'', 1), (''uint8'', 1), (''int16'', 2), (''uint16'', 2),
      (''int32'', 4), (''uint32'', 4), (''int64'', 8), (''uint64'', 8),
      (''float16'', 2), (''float32'', 4), (''float64'', 8)]"

text \<open>
  \<^verbatim>\<open>numpy.dtype(x)\<close>: a registered name gives its type, \<^verbatim>\<open>None\<close> gives numpy's default
  \<^verbatim>\<open>float64\<close>, anything else is "data type not understood".
\<close>

fun np_dtype :: "json \<Rightarrow> stop + (string \<times> nat)" where
  "np_dtype (JStr n) =
     (case map_of scalar_types n of
        None \<Rightarrow> Inl (Raised TypeError)
      | Some k \<Rightarrow> Inr (n, k))"
| "np_dtype JNull = Inr (''float64'', 8)"
| "np_dtype _ = Inl (Raised TypeError)"

text \<open>
  \<^verbatim>\<open>numpy.frombuffer(buf, dtype=dt)\<close>: a one-dimensional array over the whole buffer;
  "buffer size must be a multiple of element size" otherwise. A buffer in memory has at
  most \<^verbatim>\<open>NPY_MAX_INTP\<close> bytes (the constant is defined with the limits below), which
  the properties of decoding assume of the payload.
\<close>

definition frombuffer :: "bytes \<Rightarrow> json \<Rightarrow> stop + ndarray" where
  "frombuffer buf dt =
     (case np_dtype dt of
        Inl e \<Rightarrow> Inl e
      | Inr (n, k) \<Rightarrow>
          if length buf mod k \<noteq> 0 then Inl (Raised ValueError)
          else Inr \<lparr>dtype = n, itemsize = k,
                    shape = [int (length buf div k)], data = buf\<rparr>)"

text \<open>
  The limits of the library. An array has at most \<^verbatim>\<open>NPY_MAXDIMS\<close> dimensions: 32
  before NumPy 2, 64 since; the release in use is a parameter \<open>np\<close> of everything that
  reshapes. A dimension and a number of elements are values of the index type
  \<^verbatim>\<open>npy_intp\<close>, here the signed 64-bit integer of a 64-bit platform.
\<close>

datatype numpy_release = NumPy_1 | NumPy_2

fun NPY_MAXDIMS :: "numpy_release \<Rightarrow> nat" where
  "NPY_MAXDIMS NumPy_1 = 32"
| "NPY_MAXDIMS NumPy_2 = 64"

definition NPY_MAX_INTP :: int where
  "NPY_MAX_INTP = 2 ^ 63 - 1"

text \<open>
  The shape argument of \<^verbatim>\<open>reshape\<close> is converted first: a list of integers, or one
  integer. A list of more than \<^verbatim>\<open>NPY_MAXDIMS\<close> entries is refused before its entries
  are looked at ("maximum supported dimension for an ndarray"); then the entries are
  converted in order, an entry that is not an integer is a \<^verbatim>\<open>TypeError\<close> and an integer
  outside \<^verbatim>\<open>npy_intp\<close> a \<^verbatim>\<open>ValueError\<close> ("Maximum allowed dimension exceeded").
\<close>

fun as_dims :: "json list \<Rightarrow> stop + int list" where
  "as_dims [] = Inr []"
| "as_dims (JInt n # js) =
     (if n < - NPY_MAX_INTP - 1 \<or> NPY_MAX_INTP < n then Inl (Raised ValueError)
      else case as_dims js of Inl e \<Rightarrow> Inl e | Inr ds \<Rightarrow> Inr (n # ds))"
| "as_dims (_ # js) = Inl (Raised TypeError)"

fun as_shape :: "numpy_release \<Rightarrow> json \<Rightarrow> stop + int list" where
  "as_shape np (JList js) =
     (if NPY_MAXDIMS np < length js then Inl (Raised ValueError) else as_dims js)"
| "as_shape np (JInt n) = as_dims [JInt n]"
| "as_shape np _ = Inl (Raised TypeError)"

text \<open>
  The number of elements the non-negative dimensions ask for, multiplied up in order from
  \<open>acc\<close>; \<open>None\<close> when a product leaves \<^verbatim>\<open>npy_intp\<close> on the way
  (\<^verbatim>\<open>npy_mul_sizes_with_overflow\<close>), whatever comes after.
\<close>

fun mul_sizes :: "int \<Rightarrow> int list \<Rightarrow> int option" where
  "mul_sizes acc [] = Some acc"
| "mul_sizes acc (d # ds) =
     (if d < 0 then mul_sizes acc ds
      else if NPY_MAX_INTP < acc * d then None
      else mul_sizes (acc * d) ds)"

text \<open>
  The check of the converted shape against the array: the number of elements must be the
  product of the new dimensions. One negative dimension (numpy documents \<open>-1\<close>) is not a
  size but a request to infer it from the number of elements and the other dimensions;
  two of them are refused, and so is a product that overflows. The bytes are never
  touched.
\<close>

definition fix_unknown_dimension :: "ndarray \<Rightarrow> int list \<Rightarrow> stop + ndarray" where
  "fix_unknown_dimension A newshape =
     (let unknown = filter (\<lambda>d. d < 0) newshape;
          s_original = prod_list (shape A)
      in if 1 < length unknown then Inl (Raised ValueError)
         else case mul_sizes 1 newshape of
           None \<Rightarrow> Inl (Raised ValueError)
         | Some s_known \<Rightarrow>
             if length unknown = 1 then
               (if s_known = 0 \<or> s_original mod s_known \<noteq> 0 then Inl (Raised ValueError)
                else Inr (A\<lparr>shape :=
                       map (\<lambda>d. if d < 0 then s_original div s_known else d) newshape\<rparr>))
             else if s_original \<noteq> s_known then Inl (Raised ValueError)
             else Inr (A\<lparr>shape := newshape\<rparr>))"

text \<open>
  The size in bytes of an array of the given dimensions, multiplied up in order from the
  element size over the dimensions that are not zero; \<open>None\<close> when a product leaves
  \<^verbatim>\<open>npy_intp\<close> ("array is too big"). numpy makes this check whenever it creates an
  array, also one of no elements.
\<close>

fun mul_nbytes :: "int \<Rightarrow> int list \<Rightarrow> int option" where
  "mul_nbytes acc [] = Some acc"
| "mul_nbytes acc (d # ds) =
     (if d = 0 then mul_nbytes acc ds
      else if NPY_MAX_INTP < acc * d then None
      else mul_nbytes (acc * d) ds)"

text \<open>
  \<^verbatim>\<open>A.reshape(newshape)\<close>: the conversion of the argument, the check against the
  array, and the creation of the reshaped view of the same bytes.
\<close>

definition reshape :: "numpy_release \<Rightarrow> ndarray \<Rightarrow> json \<Rightarrow> stop + ndarray" where
  "reshape np A newshape =
     (case as_shape np newshape of
        Inl e \<Rightarrow> Inl e
      | Inr ds \<Rightarrow>
          (case fix_unknown_dimension A ds of
             Inl e \<Rightarrow> Inl e
           | Inr A' \<Rightarrow>
               (case mul_nbytes (int (itemsize A')) (shape A') of
                  None \<Rightarrow> Inl (Raised ValueError)
                | Some nbytes \<Rightarrow> Inr A')))"

subsection \<open>\<^verbatim>\<open>recv_array\<close>\<close>

text \<open>
  \<^verbatim>\<open>
  def recv_array(socket):
      md = socket.recv_json()
      msg = socket.recv(copy=True, track=False)
      buf = buffer(msg)
      A = numpy.frombuffer(buf, dtype=md["dtype"])
      A = A.reshape(md["shape"])
      return A
  \<close>
  The part after the two receives is \<open>decode_array\<close>: it reads nothing from the socket.
\<close>

definition decode_array :: "numpy_release \<Rightarrow> json \<Rightarrow> bytes \<Rightarrow> stop + ndarray" where
  "decode_array np md buf =
     (case getitem md ''dtype'' of
        Inl e \<Rightarrow> Inl e
      | Inr dt \<Rightarrow>
          (case frombuffer buf dt of
             Inl e \<Rightarrow> Inl e
           | Inr A \<Rightarrow>
               (case getitem md ''shape'' of
                  Inl e \<Rightarrow> Inl e
                | Inr sh \<Rightarrow> reshape np A sh)))"

definition recv_array ::
  "numpy_release \<Rightarrow> (bytes \<Rightarrow> json option) \<Rightarrow> zmq_socket
     \<Rightarrow> (stop + ndarray) \<times> zmq_socket" where
  "recv_array np loads socket =
     (case recv_json loads socket of
        (Inl e, s1) \<Rightarrow> (Inl e, s1)
      | (Inr md, s1) \<Rightarrow>
          (case recv s1 of
             (Inl e, s2) \<Rightarrow> (Inl e, s2)
           | (Inr msg, s2) \<Rightarrow> (decode_array np md msg, s2)))"

text \<open>
  The header of a reply as a Python object,
  \<^verbatim>\<open>{"dtype": d, "shape": [d1, ..., dn]}\<close>.
\<close>

definition header :: "string \<Rightarrow> int list \<Rightarrow> json" where
  "header d ds = JObj [(''dtype'', JStr d), (''shape'', JList (map JInt ds))]"

subsection \<open>Enumerations and spaces\<close>

text \<open>
  A Python \<^verbatim>\<open>IntEnum\<close>: its members, name and value, in declaration order.
  \<^verbatim>\<open>E(v)\<close> looks a member up by value and raises \<^verbatim>\<open>ValueError\<close> when there is
  none; \<^verbatim>\<open>E.name\<close> reads a member and raises \<^verbatim>\<open>AttributeError\<close> when there is
  none; \<^verbatim>\<open>len(E)\<close> counts the members.
\<close>

type_synonym enum = "(string \<times> int) list"

definition enum_call :: "enum \<Rightarrow> int \<Rightarrow> stop + (string \<times> int)" where
  "enum_call E v =
     (case find (\<lambda>m. snd m = v) E of
        None \<Rightarrow> Inl (Raised ValueError)
      | Some m \<Rightarrow> Inr m)"

definition enum_getattr :: "enum \<Rightarrow> string \<Rightarrow> stop + int" where
  "enum_getattr E n =
     (case map_of E n of None \<Rightarrow> Inl (Raised AttributeError) | Some v \<Rightarrow> Inr v)"

text \<open>
  Modelled from the spec: \<^verbatim>\<open>MiniWorldEnv.Actions\<close>, declared in
  \<^verbatim>\<open>gym_miniworld/miniworld.py\<close>, which is not among the source files. The spec
  (section 3) calls it a closed, ordered enumeration of the supported actions and names
  turn-left, turn-right and move-forward; the action tables in the docstrings of
  \<^verbatim>\<open>hallway.py\<close>, \<^verbatim>\<open>threerooms.py\<close> and \<^verbatim>\<open>simtorealgoto.py\<close> number these
  0, 1 and 2. The members after them stand for the further actions of the enumeration.
  The operations below take the enumeration as a parameter; this value is the instance
  the concrete examples are evaluated at.
\<close>

definition MiniWorldEnv_Actions :: enum where
  "MiniWorldEnv_Actions =
     [(''turn_left'', 0), (''turn_right'', 1), (''move_forward'', 2), (''move_back'', 3),
      (''pickup'', 4), (''drop'', 5), (''toggle'', 6), (''done'', 7)]"

text \<open>
  The gymnasium spaces as the constructors' arguments: \<^verbatim>\<open>Discrete(n)\<close> is the set
  \<open>{0, ..., n - 1}\<close>. The argument checks of gymnasium's own constructors are not part
  of the model.
\<close>

datatype space =
  Discrete int
| Box int int "int list" string

fun contains :: "space \<Rightarrow> int \<Rightarrow> bool" where
  "contains (Discrete n) x = (0 \<le> x \<and> x < n)"
| "contains (Box lo hi ds d) x = False"

subsection \<open>The class \<^verbatim>\<open>RemoteBot\<close>\<close>

definition WINDOW_WIDTH :: int where
  "WINDOW_WIDTH = 800"

definition WINDOW_HEIGHT :: int where
  "WINDOW_HEIGHT = 600"

definition SERVER_PORT :: int where
  "SERVER_PORT = 7777"

text \<open>The pyglet objects the session holds: the text label and the display window.\<close>

record text_label =
  font_name :: string
  font_size :: int
  label_x :: int
  label_y :: int

record pyglet_window =
  win_width :: int
  win_height :: int
  win_closed :: bool

text \<open>
  The attributes of a \<^verbatim>\<open>RemoteBot\<close>. \<open>step_count\<close> and \<open>img\<close> do not exist until
  \<^verbatim>\<open>reset\<close> and \<^verbatim>\<open>_recv_frame\<close> assign them: \<open>None\<close> is the missing attribute.
  \<open>socket\<close> is the ZeroMQ socket the session created, with its state.
\<close>

record session =
  actions :: enum
  action_space :: space
  observation_space :: space
  obs_width :: int
  obs_height :: int
  reward_range :: "int \<times> int"
  max_episode_steps :: enat
  window :: "pyglet_window option"
  render_mode :: "string option"
  latest_img :: "ndarray option"
  textLabel :: text_label
  socket :: zmq_socket
  step_count :: "int option"
  img :: "ndarray option"

text \<open>The statement \<^verbatim>\<open>self.socket.send_json(obj)\<close>.\<close>

definition socket_send_json :: "session \<Rightarrow> json \<Rightarrow> (stop + unit) \<times> session" where
  "socket_send_json s obj =
     (case send_json (socket s) obj of
        (Inl e, ch) \<Rightarrow> (Inl e, s\<lparr>socket := ch\<rparr>)
      | (Inr u, ch) \<Rightarrow> (Inr u, s\<lparr>socket := ch\<rparr>))"

text \<open>
  \<^verbatim>\<open>
  def _recv_frame(self):
      img = recv_array(self.socket)
      self.img = img
  \<close>
\<close>

definition recv_frame ::
  "numpy_release \<Rightarrow> (bytes \<Rightarrow> json option) \<Rightarrow> session
     \<Rightarrow> (stop + unit) \<times> session" where
  "recv_frame np loads s =
     (case recv_array np loads (socket s) of
        (Inl e, ch) \<Rightarrow> (Inl e, s\<lparr>socket := ch\<rparr>)
      | (Inr A, ch) \<Rightarrow> (Inr (), s\<lparr>socket := ch, img := Some A\<rparr>))"

text \<open>The two messages the session writes.\<close>

definition reset_command :: "session \<Rightarrow> json" where
  "reset_command s =
     JObj [(''command'', JStr ''reset''),
           (''obs_width'', JInt (obs_width s)),
           (''obs_height'', JInt (obs_height s))]"

definition action_command :: "enum \<Rightarrow> int \<Rightarrow> stop + json" where
  "action_command Actions action =
     (case enum_call Actions action of
        Inl e \<Rightarrow> Inl e
      | Inr m \<Rightarrow> Inr (JObj [(''command'', JStr ''action''), (''action'', JStr (fst m))]))"

text \<open>
  \<^verbatim>\<open>
  def reset(self, seed=None, options=None):
      self.step_count = 0
      self.socket.send_json({"command": "reset",
          "obs_width": self.obs_width, "obs_height": self.obs_height})
      self._recv_frame()
      return self.img, {}
  \<close>
  Neither \<^verbatim>\<open>seed\<close> nor \<^verbatim>\<open>options\<close> is read.
\<close>

definition reset ::
  "numpy_release \<Rightarrow> (bytes \<Rightarrow> json option) \<Rightarrow> session
     \<Rightarrow> (stop + ndarray \<times> (string \<times> json) list) \<times> session" where
  "reset np loads s =
     (let s0 = s\<lparr>step_count := Some 0\<rparr> in
      case socket_send_json s0 (reset_command s0) of
        (Inl e, s1) \<Rightarrow> (Inl e, s1)
      | (Inr u, s1) \<Rightarrow>
          (case recv_frame np loads s1 of
             (Inl e, s2) \<Rightarrow> (Inl e, s2)
           | (Inr u', s2) \<Rightarrow>
               (case img s2 of
                  None \<Rightarrow> (Inl (Raised AttributeError), s2)
                | Some A \<Rightarrow> (Inr (A, []), s2))))"

text \<open>
  \<^verbatim>\<open>
  def step(self, action):
      self.socket.send_json(
          {"command": "action", "action": RemoteBot.Actions(action).name})
      self._recv_frame()
      self.step_count += 1
      reward = 0
      termination = False
      truncation = False
      return self.img, reward, termination, truncation, {}
  \<close>
  The argument of \<^verbatim>\<open>send_json\<close> is evaluated before the call: the enumeration lookup
  comes first.
\<close>

definition step ::
  "numpy_release \<Rightarrow> enum \<Rightarrow> (bytes \<Rightarrow> json option) \<Rightarrow> session \<Rightarrow> int
     \<Rightarrow> (stop + ndarray \<times> int \<times> bool \<times> bool \<times> (string \<times> json) list) \<times> session" where
  "step np Actions loads s action =
     (case action_command Actions action of
        Inl e \<Rightarrow> (Inl e, s)
      | Inr msg \<Rightarrow>
          (case socket_send_json s msg of
             (Inl e, s1) \<Rightarrow> (Inl e, s1)
           | (Inr u, s1) \<Rightarrow>
               (case recv_frame np loads s1 of
                  (Inl e, s2) \<Rightarrow> (Inl e, s2)
                | (Inr u', s2) \<Rightarrow>
                    (case step_count s2 of
                       None \<Rightarrow> (Inl (Raised AttributeError), s2)
                     | Some n \<Rightarrow>
                         (let s3 = s2\<lparr>step_count := Some (n + 1)\<rparr> in
                          case img s3 of
                            None \<Rightarrow> (Inl (Raised AttributeError), s3)
                          | Some A \<Rightarrow> (Inr (A, 0, False, False, []), s3))))))"

text \<open>
  \<^verbatim>\<open>
  def close(self):
      if self.window:
          self.window.close()
      return
  \<close>
  The window is created by \<^verbatim>\<open>render\<close>, which draws the cached frame on the display
  and is not embedded here.
\<close>

definition close :: "session \<Rightarrow> session" where
  "close s =
     (case window s of
        None \<Rightarrow> s
      | Some w \<Rightarrow> s\<lparr>window := Some (w\<lparr>win_closed := True\<rparr>)\<rparr>)"

text \<open>
  \<^verbatim>\<open>context.socket(zmq.PAIR)\<close> followed by \<^verbatim>\<open>connect\<close>: a fresh open socket with
  nothing written; \<open>peer\<close> is what the server at the address will deliver.
\<close>

definition pair_connect :: "string \<Rightarrow> int \<Rightarrow> bytes list \<Rightarrow> zmq_socket" where
  "pair_connect serverAddr serverPort peer = \<lparr>closed = False, sent = [], inbox = peer\<rparr>"

text \<open>
  The attribute assignments of \<^verbatim>\<open>__init__\<close>, up to the call of \<^verbatim>\<open>reset\<close>:
  \<^verbatim>\<open>
  self.actions = RemoteBot.Actions
  self.action_space = spaces.Discrete(len(self.actions))
  self.observation_space = spaces.Box(
      low=0, high=255, shape=(obs_height, obs_width, 3), dtype=np.uint8)
  self.obs_width = obs_width
  self.obs_height = obs_height
  self.reward_range = (0, 1)
  self.max_episode_steps = math.inf
  self.window = None
  self.render_mode = render_mode
  self.latest_img = None
  self.textLabel = pyglet.text.Label(
      font_name="Arial", font_size=14, x=5, y=WINDOW_HEIGHT - 19)
  self.socket = context.socket(zmq.PAIR)
  self.socket.connect(addr_str)
  \<close>
\<close>

definition init_attributes ::
  "enum \<Rightarrow> int \<Rightarrow> int \<Rightarrow> string option \<Rightarrow> zmq_socket \<Rightarrow> session" where
  "init_attributes Actions w h mode ch =
     \<lparr>actions = Actions,
      action_space = Discrete (int (length Actions)),
      observation_space = Box 0 255 [h, w, 3] ''uint8'',
      obs_width = w,
      obs_height = h,
      reward_range = (0, 1),
      max_episode_steps = \<infinity>,
      window = None,
      render_mode = mode,
      latest_img = None,
      textLabel = \<lparr>font_name = ''Arial'', font_size = 14,
                   label_x = 5, label_y = WINDOW_HEIGHT - 19\<rparr>,
      socket = ch,
      step_count = None,
      img = None\<rparr>"

text \<open>
  The constructor. \<open>zmq\<close> says whether the module was imported (the \<^verbatim>\<open>assert\<close>).
  It ends with \<^verbatim>\<open>self.reset()\<close>; when that stops early no session exists.
\<close>

definition RemoteBot_init ::
  "numpy_release \<Rightarrow> enum \<Rightarrow> (bytes \<Rightarrow> json option) \<Rightarrow> bool \<Rightarrow> bytes list
     \<Rightarrow> string \<Rightarrow> int \<Rightarrow> int \<Rightarrow> int \<Rightarrow> string option \<Rightarrow> stop + session" where
  "RemoteBot_init np Actions loads zmq peer serverAddr serverPort w h mode =
     (if \<not> zmq then Inl (Raised AssertionError)
      else
        (case reset np loads
                (init_attributes Actions w h mode (pair_connect serverAddr serverPort peer)) of
           (Inl e, s') \<Rightarrow> Inl e
         | (Inr r, s') \<Rightarrow> Inr s'))"

subsection \<open>The simulated environments\<close>

text \<open>
  \<^verbatim>\<open>Hallway\<close>, \<^verbatim>\<open>ThreeRooms\<close> and \<^verbatim>\<open>SimToRealGoTo\<close> extend \<^verbatim>\<open>MiniWorldEnv\<close>,
  whose file is not among the sources. Its constructor is the parameter \<open>super_init\<close>,
  a function of the keyword arguments the subclasses pass (\<^verbatim>\<open>max_episode_steps\<close>,
  \<^verbatim>\<open>params\<close>, \<^verbatim>\<open>domain_rand\<close>); of the object it leaves, the subclasses' constructors
  read \<^verbatim>\<open>self.actions\<close> and assign \<^verbatim>\<open>self.action_space\<close>.
\<close>

record sim_env =
  sim_actions :: enum
  sim_action_space :: space
  sim_max_episode_steps :: int

record hallway = sim_env +
  hall_length :: int

text \<open>The statement \<^verbatim>\<open>self.action_space = spaces.Discrete(self.actions.move_forward + 1)\<close>.\<close>

definition allow_movement :: "'a sim_env_scheme \<Rightarrow> stop + 'a sim_env_scheme" where
  "allow_movement e =
     (case enum_getattr (sim_actions e) ''move_forward'' of
        Inl x \<Rightarrow> Inl x
      | Inr v \<Rightarrow> Inr (e\<lparr>sim_action_space := Discrete (v + 1)\<rparr>))"

text \<open>
  \<^verbatim>\<open>
  def __init__(self, length=12, **kwargs):
      assert length >= 2
      self.length = length
      super().__init__(max_episode_steps=250, **kwargs)
      self.action_space = spaces.Discrete(self.actions.move_forward + 1)
  \<close>
\<close>

definition Hallway_init ::
  "(int \<Rightarrow> 'p option \<Rightarrow> bool option \<Rightarrow> stop + sim_env) \<Rightarrow> int \<Rightarrow> stop + hallway" where
  "Hallway_init super_init len =
     (if \<not> 2 \<le> len then Inl (Raised AssertionError)
      else case super_init 250 None None of
             Inl x \<Rightarrow> Inl x
           | Inr e \<Rightarrow> allow_movement (sim_env.extend e (hallway.fields len)))"

text \<open>
  \<^verbatim>\<open>
  def __init__(self, **kwargs):
      super().__init__(max_episode_steps=400, **kwargs)
      self.action_space = spaces.Discrete(self.actions.move_forward + 1)
  \<close>
\<close>

definition ThreeRooms_init ::
  "(int \<Rightarrow> 'p option \<Rightarrow> bool option \<Rightarrow> stop + sim_env) \<Rightarrow> stop + sim_env" where
  "ThreeRooms_init super_init =
     (case super_init 400 None None of
        Inl x \<Rightarrow> Inl x
      | Inr e \<Rightarrow> allow_movement e)"

text \<open>
  \<^verbatim>\<open>
  def __init__(self, **kwargs):
      super().__init__(
          max_episode_steps=100, params=sim_params, domain_rand=True, **kwargs)
      self.action_space = spaces.Discrete(self.actions.move_forward + 1)
  \<close>
  \<open>sim_params\<close> is the module's parameter set, built from \<^verbatim>\<open>DEFAULT_PARAMS\<close> of another
  file that is not among the sources.
\<close>

definition SimToRealGoTo_init ::
  "(int \<Rightarrow> 'p option \<Rightarrow> bool option \<Rightarrow> stop + sim_env) \<Rightarrow> 'p \<Rightarrow> stop + sim_env" where
  "SimToRealGoTo_init super_init sim_params =
     (case super_init 100 (Some sim_params) (Some True) of
        Inl x \<Rightarrow> Inl x
      | Inr e \<Rightarrow> allow_movement e)"

subsection \<open>Values for the concrete examples\<close>

text \<open>
  A parser that knows one header message, a peer that delivers two replies of one row of
  two RGB pixels, and the session the constructor returns when it talks to that peer
  (lemma \<open>example_bot_constructed\<close>): the first reply is its cached frame, the second is
  still to come.
\<close>

definition example_loads :: "bytes \<Rightarrow> json option" where
  "example_loads = map_of [([104], header ''uint8'' [1, 2, 3])]"

definition example_peer :: "bytes list" where
  "example_peer = [[104], [1, 2, 3, 4, 5, 6], [104], [6, 5, 4, 3, 2, 1]]"

definition example_bot :: session where
  "example_bot =
     (init_attributes MiniWorldEnv_Actions 2 1 None
        \<lparr>closed = False,
         sent = [JObj [(''command'', JStr ''reset''),
                       (''obs_width'', JInt 2), (''obs_height'', JInt 1)]],
         inbox = [[104], [6, 5, 4, 3, 2, 1]]\<rparr>)
     \<lparr>step_count := Some 0,
      img := Some \<lparr>dtype = ''uint8'', itemsize = 1, shape = [1, 2, 3],
                   data = [1, 2, 3, 4, 5, 6]\<rparr>\<rparr>"

section \<open>Properties\<close>

subsection \<open>Decoding a reply\<close>

text \<open>A header built by \<open>header\<close> has both keys, and its shape is a list of integers.\<close>

lemma getitem_header_dtype: "getitem (header d ds) ''dtype'' = Inr (JStr d)"
  by (simp add: header_def)

lemma getitem_header_shape: "getitem (header d ds) ''shape'' = Inr (JList (map JInt ds))"
  by (simp add: header_def)

lemma scalar_types_pos: "map_of scalar_types d = Some k \<Longrightarrow> 0 < k"
  by (auto simp: scalar_types_def split: if_splits)

lemma scalar_types_small: "map_of scalar_types d = Some k \<Longrightarrow> int k \<le> NPY_MAX_INTP"
  by (auto simp: scalar_types_def NPY_MAX_INTP_def split: if_splits)

lemma as_dims_map_JInt:
  "as_dims (map JInt ds) =
     (if \<forall>d\<in>set ds. - NPY_MAX_INTP - 1 \<le> d \<and> d \<le> NPY_MAX_INTP then Inr ds
      else Inl (Raised ValueError))"
  by (induction ds) auto

lemma filter_neg_none: "\<forall>x\<in>set ds. (0::int) < x \<Longrightarrow> filter (\<lambda>d. d < 0) ds = []"
  by (induction ds) auto

lemma prod_list_pos: "\<forall>x\<in>set ds. (0::int) < x \<Longrightarrow> 0 < prod_list ds"
  by (induction ds) simp_all

lemma le_prod_list:
  assumes "\<forall>x\<in>set ds. (0::int) < x" and "d \<in> set ds"
  shows "d \<le> prod_list ds"
  using assms
proof (induction ds)
  case Nil
  then show ?case by simp
next
  case (Cons x xs)
  then have x: "0 < x" and xs: "\<forall>y\<in>set xs. 0 < y"
    by simp_all
  from xs have p: "1 \<le> prod_list xs"
    using prod_list_pos [of xs] by simp
  show ?case
  proof (cases "d = x")
    case True
    from x p have "x * 1 \<le> x * prod_list xs"
      by (intro mult_left_mono) simp_all
    with True show ?thesis by simp
  next
    case False
    with Cons.prems have "d \<in> set xs" by simp
    with Cons.IH xs have "d \<le> prod_list xs" by simp
    moreover from x have "1 \<le> x" by simp
    then have "1 * prod_list xs \<le> x * prod_list xs"
      using p by (intro mult_right_mono) simp_all
    ultimately show ?thesis by simp
  qed
qed

lemma mul_sizes_fits:
  assumes "\<forall>x\<in>set ds. 0 < x" and "0 < acc" and "acc * prod_list ds \<le> NPY_MAX_INTP"
  shows "mul_sizes acc ds = Some (acc * prod_list ds)"
  using assms
proof (induction ds arbitrary: acc)
  case Nil
  then show ?case by simp
next
  case (Cons d ds)
  then have d: "0 < d" and rest: "\<forall>x\<in>set ds. 0 < x"
    by simp_all
  from rest have "1 \<le> prod_list ds"
    using prod_list_pos [of ds] by simp
  moreover from d Cons.prems(2) have "0 \<le> acc * d"
    by simp
  ultimately have "(acc * d) * 1 \<le> (acc * d) * prod_list ds"
    by (intro mult_left_mono)
  with Cons.prems(3) have fit: "acc * d \<le> NPY_MAX_INTP"
    by (simp add: mult.assoc)
  from d Cons.prems(2) have "0 < acc * d"
    by simp
  moreover from Cons.prems(3) have "(acc * d) * prod_list ds \<le> NPY_MAX_INTP"
    by (simp add: mult.assoc)
  ultimately have "mul_sizes (acc * d) ds = Some ((acc * d) * prod_list ds)"
    using Cons.IH rest by blast
  with d fit show ?case
    by (simp add: mult.assoc)
qed

lemma mul_sizes_overflow:
  assumes "\<forall>x\<in>set ds. 0 < x" and "0 < acc" and "acc \<le> NPY_MAX_INTP"
    and "NPY_MAX_INTP < acc * prod_list ds"
  shows "mul_sizes acc ds = None"
  using assms
proof (induction ds arbitrary: acc)
  case Nil
  then show ?case by simp
next
  case (Cons d ds)
  then have d: "0 < d" and rest: "\<forall>x\<in>set ds. 0 < x"
    by simp_all
  show ?case
  proof (cases "NPY_MAX_INTP < acc * d")
    case True
    with d show ?thesis by simp
  next
    case False
    from d Cons.prems(2) have "0 < acc * d"
      by simp
    moreover from False have "acc * d \<le> NPY_MAX_INTP"
      by simp
    moreover from Cons.prems(4) have "NPY_MAX_INTP < (acc * d) * prod_list ds"
      by (simp add: mult.assoc)
    ultimately have "mul_sizes (acc * d) ds = None"
      using Cons.IH rest by blast
    with d False show ?thesis by simp
  qed
qed

lemma fix_unknown_dimension_positive:
  assumes "\<forall>x\<in>set ds. 0 < x"
  shows "fix_unknown_dimension A ds =
    (if prod_list ds \<le> NPY_MAX_INTP \<and> prod_list (shape A) = prod_list ds
     then Inr (A\<lparr>shape := ds\<rparr>)
     else Inl (Raised ValueError))"
proof (cases "prod_list ds \<le> NPY_MAX_INTP")
  case True
  with assms have "mul_sizes 1 ds = Some (prod_list ds)"
    using mul_sizes_fits [of ds 1] by simp
  with assms True show ?thesis
    by (simp add: fix_unknown_dimension_def filter_neg_none)
next
  case False
  have "1 \<le> NPY_MAX_INTP"
    by (simp add: NPY_MAX_INTP_def)
  with assms False have "mul_sizes 1 ds = None"
    using mul_sizes_overflow [of ds 1] by simp
  with assms False show ?thesis
    by (simp add: fix_unknown_dimension_def filter_neg_none)
qed

lemma mul_nbytes_positive:
  "\<forall>x\<in>set ds. 0 < x \<Longrightarrow> mul_nbytes acc ds = mul_sizes acc ds"
  by (induction ds arbitrary: acc) auto

lemma reshape_positive:
  assumes "\<forall>x\<in>set ds. 0 < x" and "length ds \<le> NPY_MAXDIMS np"
    and "0 < itemsize A" and "int (itemsize A) \<le> NPY_MAX_INTP"
  shows "reshape np A (JList (map JInt ds)) =
    (if int (itemsize A) * prod_list ds \<le> NPY_MAX_INTP \<and> prod_list (shape A) = prod_list ds
     then Inr (A\<lparr>shape := ds\<rparr>)
     else Inl (Raised ValueError))"
proof -
  have M: "0 \<le> NPY_MAX_INTP"
    by (simp add: NPY_MAX_INTP_def)
  from assms(1) have pos: "0 < prod_list ds"
    by (rule prod_list_pos)
  from assms(3) have "1 \<le> int (itemsize A)"
    by simp
  with pos have "1 * prod_list ds \<le> int (itemsize A) * prod_list ds"
    by (intro mult_right_mono) simp_all
  then have le: "prod_list ds \<le> int (itemsize A) * prod_list ds"
    by simp
  show ?thesis
  proof (cases "\<forall>d\<in>set ds. d \<le> NPY_MAX_INTP")
    case True
    with assms(1) M have "\<forall>d\<in>set ds. - NPY_MAX_INTP - 1 \<le> d \<and> d \<le> NPY_MAX_INTP"
      by fastforce
    then have dims: "as_dims (map JInt ds) = Inr ds"
      by (simp add: as_dims_map_JInt)
    show ?thesis
    proof (cases "int (itemsize A) * prod_list ds \<le> NPY_MAX_INTP")
      case fit: True
      with assms(1,3) have "mul_sizes (int (itemsize A)) ds = Some (int (itemsize A) * prod_list ds)"
        by (intro mul_sizes_fits) simp_all
      with assms dims fit le show ?thesis
        by (simp add: reshape_def fix_unknown_dimension_positive mul_nbytes_positive)
    next
      case big: False
      show ?thesis
      proof -
        from assms(1,3,4) big have "mul_sizes (int (itemsize A)) ds = None"
          by (intro mul_sizes_overflow) simp_all
        with assms dims big show ?thesis
          by (simp add: reshape_def fix_unknown_dimension_positive mul_nbytes_positive)
      qed
    qed
  next
    case False
    then obtain d where d: "d \<in> set ds" and over: "NPY_MAX_INTP < d"
      by force
    from le_prod_list [OF assms(1) d] over le
    have "\<not> int (itemsize A) * prod_list ds \<le> NPY_MAX_INTP"
      by simp
    moreover from False have "as_dims (map JInt ds) = Inl (Raised ValueError)"
      by (auto simp: as_dims_map_JInt)
    ultimately show ?thesis
      using assms(2) by (simp add: reshape_def)
  qed
qed

lemma exact_length_iff:
  assumes "0 < k"
  shows "(n mod k = 0 \<and> int (n div k) = p) \<longleftrightarrow> int n = p * int k"
proof
  assume h: "n mod k = 0 \<and> int (n div k) = p"
  then have "n = (n div k) * k" by auto
  then have "int n = int (n div k) * int k" by (metis of_nat_mult)
  with h show "int n = p * int k" by simp
next
  assume h: "int n = p * int k"
  from assms have kp: "0 < int k" by simp
  have "0 \<le> int n" by simp
  with h kp have "0 \<le> p"
    by (metis mult_less_0_iff not_le)
  then obtain q where q: "p = int q" using nonneg_int_cases by blast
  with h have "int n = int (q * k)" by simp
  then have "n = q * k" by (metis of_nat_eq_iff)
  with assms q show "n mod k = 0 \<and> int (n div k) = p" by simp
qed

lemma decode_array_positive:
  assumes "map_of scalar_types d = Some k"
    and "\<forall>x\<in>set ds. 0 < x"
    and "length ds \<le> NPY_MAXDIMS np"
    and "int (length buf) \<le> NPY_MAX_INTP"
  shows "decode_array np (header d ds) buf =
    (if int (length buf) = prod_list ds * int k
     then Inr \<lparr>dtype = d, itemsize = k, shape = ds, data = buf\<rparr>
     else Inl (Raised ValueError))"
proof -
  from assms(1) have k: "0 < k" by (rule scalar_types_pos)
  note iff = exact_length_iff [OF k, of "length buf" "prod_list ds"]
  show ?thesis
  proof (cases "length buf mod k = 0")
    case False
    with iff assms(1) show ?thesis
      by (auto simp: decode_array_def getitem_header_dtype frombuffer_def)
  next
    case True
    let ?A = "\<lparr>dtype = d, itemsize = k, shape = [int (length buf div k)], data = buf\<rparr>"
    from True assms(1) have fb: "frombuffer buf (JStr d) = Inr ?A"
      by (simp add: frombuffer_def)
    have "reshape np ?A (JList (map JInt ds)) =
        (if int (length buf) = prod_list ds * int k then Inr (?A\<lparr>shape := ds\<rparr>)
         else Inl (Raised ValueError))"
      using True iff k assms(4) scalar_types_small [OF assms(1)]
      by (auto simp: reshape_positive [OF assms(2,3)] mult.commute)
    with fb show ?thesis
      by (simp add: decode_array_def getitem_header_dtype getitem_header_shape)
  qed
qed

lemma recv_array_framed:
  assumes "\<not> closed ch" and "inbox ch = h # p # rest" and "loads h = Some md"
  shows "recv_array np loads ch = (decode_array np md p, ch\<lparr>inbox := rest\<rparr>)"
  using assms by (simp add: recv_array_def recv_json_def recv_def)

lemma recv_array_InrD:
  assumes "recv_array np loads ch = (Inr A, ch')"
  shows "\<not> closed ch \<and> ch' = ch\<lparr>inbox := drop 2 (inbox ch)\<rparr> \<and>
    (\<exists>h p md. inbox ch = h # p # drop 2 (inbox ch) \<and> loads h = Some md \<and>
       decode_array np md p = Inr A)"
  using assms
  by (auto simp: recv_array_def recv_json_def recv_def
      split: if_splits list.splits option.splits)

subsection \<open>The session's operations\<close>

text \<open>
  What a returning call did (the \<open>InrD\<close> lemmas), and what a call does when the socket
  is open and the next two messages are a header that parses and a payload (the
  \<open>framed\<close> lemmas).
\<close>

lemma socket_send_json_open:
  assumes "\<not> closed (socket s)"
  shows "socket_send_json s obj =
    (Inr (), s\<lparr>socket := (socket s)\<lparr>sent := sent (socket s) @ [obj]\<rparr>\<rparr>)"
  using assms by (simp add: socket_send_json_def send_json_def)

lemma socket_send_json_InrD:
  assumes "socket_send_json s obj = (Inr u, s1)"
  shows "\<not> closed (socket s) \<and>
    s1 = s\<lparr>socket := (socket s)\<lparr>sent := sent (socket s) @ [obj]\<rparr>\<rparr>"
  using assms by (auto simp: socket_send_json_def send_json_def split: if_splits)

lemma recv_frame_InrD:
  assumes "recv_frame np loads s = (Inr u, s2)"
  shows "\<exists>A ch'. recv_array np loads (socket s) = (Inr A, ch') \<and>
    s2 = s\<lparr>socket := ch', img := Some A\<rparr>"
  using assms by (auto simp: recv_frame_def split: prod.splits sum.splits)

lemma action_command_InrD:
  assumes "action_command Actions action = Inr msg"
  shows "\<exists>n. (n, action) \<in> set Actions \<and>
    msg = JObj [(''command'', JStr ''action''), (''action'', JStr n)]"
proof -
  from assms obtain m where m: "find (\<lambda>m. snd m = action) Actions = Some m"
    and msg: "msg = JObj [(''command'', JStr ''action''), (''action'', JStr (fst m))]"
    by (auto simp: action_command_def enum_call_def split: option.splits)
  from m have "m \<in> set Actions" and "snd m = action"
    by (auto simp: find_Some_iff)
  then have "(fst m, action) \<in> set Actions"
    by (metis prod.collapse)
  with msg show ?thesis by blast
qed

lemma action_command_invalid:
  assumes "action \<notin> snd ` set Actions"
  shows "action_command Actions action = Inl (Raised ValueError)"
proof -
  have "find (\<lambda>m. snd m = action) Actions = None"
    using assms by (force simp: find_None_iff)
  then show ?thesis by (simp add: action_command_def enum_call_def)
qed

lemma action_command_valid:
  assumes "action \<in> snd ` set Actions"
  shows "\<exists>n. (n, action) \<in> set Actions \<and>
    action_command Actions action =
      Inr (JObj [(''command'', JStr ''action''), (''action'', JStr n)])"
proof -
  from assms obtain m where "m \<in> set Actions" and "snd m = action"
    by auto
  then have "\<exists>x. x \<in> set Actions \<and> snd x = action"
    by blast
  then have "find (\<lambda>m. snd m = action) Actions \<noteq> None"
    by (simp only: find_None_iff not_not)
  then obtain msg where "action_command Actions action = Inr msg"
    by (auto simp: action_command_def enum_call_def)
  with action_command_InrD [of Actions action msg] show ?thesis
    by auto
qed

lemma step_InrD:
  assumes "step np Actions loads s action = (Inr r, s')"
  shows "\<exists>msg n A ch'.
    action_command Actions action = Inr msg \<and>
    \<not> closed (socket s) \<and>
    step_count s = Some n \<and>
    recv_array np loads ((socket s)\<lparr>sent := sent (socket s) @ [msg]\<rparr>) = (Inr A, ch') \<and>
    r = (A, 0, False, False, []) \<and>
    s' = s\<lparr>socket := ch', step_count := Some (n + 1), img := Some A\<rparr>"
proof -
  from assms obtain msg where msg: "action_command Actions action = Inr msg"
    by (auto simp: step_def split: sum.splits)
  from assms msg obtain u s1 where s1: "socket_send_json s msg = (Inr u, s1)"
    by (auto simp: step_def split: sum.splits prod.splits)
  from assms msg s1 obtain u' s2 where s2: "recv_frame np loads s1 = (Inr u', s2)"
    by (auto simp: step_def split: sum.splits prod.splits)
  from assms msg s1 s2 obtain n where n: "step_count s2 = Some n"
    by (auto simp: step_def split: option.splits)
  from socket_send_json_InrD [OF s1]
  have op: "\<not> closed (socket s)"
    and s1_eq: "s1 = s\<lparr>socket := (socket s)\<lparr>sent := sent (socket s) @ [msg]\<rparr>\<rparr>"
    by simp_all
  from recv_frame_InrD [OF s2] obtain A ch'
    where A: "recv_array np loads (socket s1) = (Inr A, ch')"
      and s2_eq: "s2 = s1\<lparr>socket := ch', img := Some A\<rparr>"
    by blast
  from s2_eq have im: "img s2 = Some A"
    by simp
  from assms msg s1 s2 n im
  have r: "r = (A, 0, False, False, [])" and s': "s' = s2\<lparr>step_count := Some (n + 1)\<rparr>"
    by (auto simp: step_def Let_def)
  from n s2_eq s1_eq have n0: "step_count s = Some n"
    by simp
  from s' s2_eq s1_eq
  have "s' = s\<lparr>socket := ch', step_count := Some (n + 1), img := Some A\<rparr>"
    by simp
  moreover from A s1_eq
  have "recv_array np loads ((socket s)\<lparr>sent := sent (socket s) @ [msg]\<rparr>) = (Inr A, ch')"
    by simp
  ultimately show ?thesis
    using msg op n0 r by blast
qed

lemma reset_InrD:
  assumes "reset np loads s = (Inr q, s')"
  shows "\<exists>A ch'.
    \<not> closed (socket s) \<and>
    recv_array np loads ((socket s)\<lparr>sent := sent (socket s) @ [reset_command s]\<rparr>) = (Inr A, ch') \<and>
    q = (A, []) \<and>
    s' = s\<lparr>socket := ch', step_count := Some 0, img := Some A\<rparr>"
proof -
  let ?s0 = "s\<lparr>step_count := Some 0\<rparr>"
  have cmd: "reset_command ?s0 = reset_command s"
    by (simp add: reset_command_def)
  from assms obtain u s1 where s1: "socket_send_json ?s0 (reset_command s) = (Inr u, s1)"
    by (auto simp: reset_def Let_def cmd split: sum.splits prod.splits)
  from assms s1 obtain u' s2 where s2: "recv_frame np loads s1 = (Inr u', s2)"
    by (auto simp: reset_def Let_def cmd split: sum.splits prod.splits)
  from socket_send_json_InrD [OF s1]
  have op: "\<not> closed (socket s)"
    and s1_eq: "s1 = s\<lparr>socket := (socket s)\<lparr>sent := sent (socket s) @ [reset_command s]\<rparr>,
                       step_count := Some 0\<rparr>"
    by simp_all
  from recv_frame_InrD [OF s2] obtain A ch'
    where A: "recv_array np loads (socket s1) = (Inr A, ch')"
      and s2_eq: "s2 = s1\<lparr>socket := ch', img := Some A\<rparr>"
    by blast
  from s2_eq have im: "img s2 = Some A"
    by simp
  from assms s1 s2 im have q: "q = (A, [])" and s': "s' = s2"
    by (auto simp: reset_def Let_def cmd)
  from s' s2_eq s1_eq
  have "s' = s\<lparr>socket := ch', step_count := Some 0, img := Some A\<rparr>"
    by simp
  moreover from A s1_eq
  have "recv_array np loads ((socket s)\<lparr>sent := sent (socket s) @ [reset_command s]\<rparr>) = (Inr A, ch')"
    by simp
  ultimately show ?thesis
    using op q by blast
qed

lemma reset_framed:
  assumes "\<not> closed (socket s)" and "inbox (socket s) = h # p # rest" and "loads h = Some md"
  shows "reset np loads s =
    (case decode_array np md p of
       Inl e \<Rightarrow>
         (Inl e, s\<lparr>socket := (socket s)\<lparr>sent := sent (socket s) @ [reset_command s],
                                        inbox := rest\<rparr>,
                    step_count := Some 0\<rparr>)
     | Inr A \<Rightarrow>
         (Inr (A, []), s\<lparr>socket := (socket s)\<lparr>sent := sent (socket s) @ [reset_command s],
                                              inbox := rest\<rparr>,
                          step_count := Some 0, img := Some A\<rparr>))"
proof -
  let ?ch = "(socket s)\<lparr>sent := sent (socket s) @ [reset_command s]\<rparr>"
  have "recv_array np loads ?ch = (decode_array np md p, ?ch\<lparr>inbox := rest\<rparr>)"
    using assms by (intro recv_array_framed) simp_all
  then show ?thesis
    using assms(1)
    by (simp add: reset_def Let_def socket_send_json_open recv_frame_def reset_command_def
        split: sum.splits)
qed

lemma step_framed:
  assumes "action_command Actions action = Inr msg"
    and "step_count s = Some n"
    and "\<not> closed (socket s)" and "inbox (socket s) = h # p # rest" and "loads h = Some md"
  shows "step np Actions loads s action =
    (case decode_array np md p of
       Inl e \<Rightarrow>
         (Inl e, s\<lparr>socket := (socket s)\<lparr>sent := sent (socket s) @ [msg], inbox := rest\<rparr>\<rparr>)
     | Inr A \<Rightarrow>
         (Inr (A, 0, False, False, []),
          s\<lparr>socket := (socket s)\<lparr>sent := sent (socket s) @ [msg], inbox := rest\<rparr>,
            step_count := Some (n + 1), img := Some A\<rparr>))"
proof -
  let ?ch = "(socket s)\<lparr>sent := sent (socket s) @ [msg]\<rparr>"
  have "recv_array np loads ?ch = (decode_array np md p, ?ch\<lparr>inbox := rest\<rparr>)"
    using assms by (intro recv_array_framed) simp_all
  then show ?thesis
    using assms(1,2,3)
    by (simp add: step_def Let_def socket_send_json_open recv_frame_def
        split: sum.splits)
qed

lemma example_header: "example_loads [104] = Some (header ''uint8'' [1, 2, 3])"
  by (simp add: example_loads_def)

lemma example_decode:
  "length p = 6 \<Longrightarrow> decode_array np (header ''uint8'' [1, 2, 3]) p =
     Inr \<lparr>dtype = ''uint8'', itemsize = 1, shape = [1, 2, 3], data = p\<rparr>"
proof -
  assume len: "length p = 6"
  have t: "map_of scalar_types ''uint8'' = Some 1"
    by (simp add: scalar_types_def)
  have pos: "\<forall>x\<in>set [1, 2, 3 :: int]. 0 < x"
    by simp
  have dims: "length [1, 2, 3 :: int] \<le> NPY_MAXDIMS np"
    by (cases np) simp_all
  from len have fits: "int (length p) \<le> NPY_MAX_INTP"
    by (simp add: NPY_MAX_INTP_def)
  from decode_array_positive [OF t pos dims fits] len show ?thesis
    by simp
qed

lemma example_bot_constructed:
  "RemoteBot_init np MiniWorldEnv_Actions example_loads True example_peer
     ''minibot1.local'' SERVER_PORT 2 1 None = Inr example_bot"
proof -
  let ?s = "init_attributes MiniWorldEnv_Actions 2 1 None
     (pair_connect ''minibot1.local'' SERVER_PORT example_peer)"
  have "reset np example_loads ?s = (Inr (\<lparr>dtype = ''uint8'', itemsize = 1, shape = [1, 2, 3],
      data = [1, 2, 3, 4, 5, 6]\<rparr>, []), example_bot)"
    by (simp add: reset_framed [where h = "[104]" and p = "[1, 2, 3, 4, 5, 6]"
          and rest = "[[104], [6, 5, 4, 3, 2, 1]]" and md = "header ''uint8'' [1, 2, 3]"]
        init_attributes_def pair_connect_def example_peer_def example_header example_decode
        reset_command_def example_bot_def)
  then show ?thesis
    by (simp add: RemoteBot_init_def)
qed

lemma example_bot_socket:
  "\<not> closed (socket example_bot)"
  "inbox (socket example_bot) = [104] # [6, 5, 4, 3, 2, 1] # []"
  "step_count example_bot = Some 0"
  by (simp_all add: example_bot_def init_attributes_def)

lemma example_step:
  "step np MiniWorldEnv_Actions example_loads example_bot 2
     = (Inr (\<lparr>dtype = ''uint8'', itemsize = 1, shape = [1, 2, 3], data = [6, 5, 4, 3, 2, 1]\<rparr>,
             0, False, False, []),
        example_bot\<lparr>socket := (socket example_bot)
                       \<lparr>sent := sent (socket example_bot) @
                          [JObj [(''command'', JStr ''action''), (''action'', JStr ''move_forward'')]],
                        inbox := []\<rparr>,
                    step_count := Some 1,
                    img := Some \<lparr>dtype = ''uint8'', itemsize = 1, shape = [1, 2, 3],
                                 data = [6, 5, 4, 3, 2, 1]\<rparr>\<rparr>)"
proof -
  have cmd: "action_command MiniWorldEnv_Actions 2
      = Inr (JObj [(''command'', JStr ''action''), (''action'', JStr ''move_forward'')])"
    by (simp add: action_command_def enum_call_def MiniWorldEnv_Actions_def)
  show ?thesis
    by (simp add: step_framed [where loads = example_loads, OF cmd example_bot_socket(3)
          example_bot_socket(1) example_bot_socket(2) example_header] example_decode)
qed

lemma example_reset:
  "reset np example_loads example_bot
     = (Inr (\<lparr>dtype = ''uint8'', itemsize = 1, shape = [1, 2, 3], data = [6, 5, 4, 3, 2, 1]\<rparr>, []),
        example_bot\<lparr>socket := (socket example_bot)
                       \<lparr>sent := sent (socket example_bot) @
                          [JObj [(''command'', JStr ''reset''),
                                 (''obs_width'', JInt 2), (''obs_height'', JInt 1)]],
                        inbox := []\<rparr>,
                    step_count := Some 0,
                    img := Some \<lparr>dtype = ''uint8'', itemsize = 1, shape = [1, 2, 3],
                                 data = [6, 5, 4, 3, 2, 1]\<rparr>\<rparr>)"
proof -
  have cmd: "reset_command example_bot
      = JObj [(''command'', JStr ''reset''), (''obs_width'', JInt 2), (''obs_height'', JInt 1)]"
    by (simp add: reset_command_def example_bot_def init_attributes_def)
  show ?thesis
    by (simp add: reset_framed [where loads = example_loads, OF example_bot_socket(1)
          example_bot_socket(2) example_header] example_decode cmd)
qed

subsection \<open>Claims about \<^verbatim>\<open>recv_array\<close>\<close>

text \<open>
  C1 (as amended). For every registry dtype and every shape of at most \<^verbatim>\<open>NPY_MAXDIMS\<close>
  dimensions, all of them positive, receiving a reply whose header declares that dtype
  and shape, and whose payload is a buffer in memory (at most \<^verbatim>\<open>NPY_MAX_INTP\<close> bytes),
  returns an array exactly when the payload has product(shape) * element size bytes; then
  the array has the declared dtype and shape and the payload as its bytes. A payload of
  any other length, shorter or longer, raises \<^verbatim>\<open>ValueError\<close> (the spec's SizeMismatch)
  and no array is returned. Either way both messages of the reply have been taken from
  the socket.
\<close>

theorem recv_array_exact_size:
  assumes "map_of scalar_types d = Some k"
    and "\<forall>x\<in>set ds. 0 < x"
    and "length ds \<le> NPY_MAXDIMS np"
    and "int (length p) \<le> NPY_MAX_INTP"
    and "\<not> closed ch"
    and "inbox ch = h # p # rest"
    and "loads h = Some (header d ds)"
  shows "recv_array np loads ch =
    (if int (length p) = prod_list ds * int k
     then Inr \<lparr>dtype = d, itemsize = k, shape = ds, data = p\<rparr>
     else Inl (Raised ValueError),
     ch\<lparr>inbox := rest\<rparr>)"
proof -
  from assms(5,6,7)
  have "recv_array np loads ch = (decode_array np (header d ds) p, ch\<lparr>inbox := rest\<rparr>)"
    by (rule recv_array_framed)
  with decode_array_positive [OF assms(1,2,3,4)] show ?thesis
    by simp
qed

theorem recv_array_exact_size_witness:
  "recv_array NumPy_2 (map_of [([104], header ''uint16'' [2, 3])])
     \<lparr>closed = False, sent = [], inbox = [[104], [1, 2, 3, 4, 5, 6, 7, 8, 9, 10, 11, 12]]\<rparr>
   = (Inr \<lparr>dtype = ''uint16'', itemsize = 2, shape = [2, 3],
            data = [1, 2, 3, 4, 5, 6, 7, 8, 9, 10, 11, 12]\<rparr>,
      \<lparr>closed = False, sent = [], inbox = []\<rparr>)
   \<and> recv_array NumPy_2 (map_of [([104], header ''uint16'' [2, 3])])
     \<lparr>closed = False, sent = [], inbox = [[104], [1, 2, 3, 4, 5, 6, 7, 8, 9, 10]]\<rparr>
   = (Inl (Raised ValueError), \<lparr>closed = False, sent = [], inbox = []\<rparr>)"
proof -
  have t: "map_of scalar_types ''uint16'' = Some 2"
    by (simp add: scalar_types_def)
  have pos: "\<forall>x\<in>set [2, 3 :: int]. 0 < x"
    by simp
  have dims: "length [2, 3 :: int] \<le> NPY_MAXDIMS NumPy_2"
    by simp
  note exact = recv_array_exact_size [where np = NumPy_2 and d = "''uint16''" and k = 2
      and ds = "[2, 3]" and h = "[104]" and rest = "[]"
      and loads = "map_of [([104], header ''uint16'' [2, 3])]", OF t pos dims]
  have "recv_array NumPy_2 (map_of [([104], header ''uint16'' [2, 3])])
     \<lparr>closed = False, sent = [], inbox = [[104], [1, 2, 3, 4, 5, 6, 7, 8, 9, 10, 11, 12]]\<rparr>
   = (Inr \<lparr>dtype = ''uint16'', itemsize = 2, shape = [2, 3],
            data = [1, 2, 3, 4, 5, 6, 7, 8, 9, 10, 11, 12]\<rparr>,
      \<lparr>closed = False, sent = [], inbox = []\<rparr>)"
    using exact [where p = "[1, 2, 3, 4, 5, 6, 7, 8, 9, 10, 11, 12]"
        and ch = "\<lparr>closed = False, sent = [],
                   inbox = [[104], [1, 2, 3, 4, 5, 6, 7, 8, 9, 10, 11, 12]]\<rparr>"]
    by (simp add: NPY_MAX_INTP_def)
  moreover have "recv_array NumPy_2 (map_of [([104], header ''uint16'' [2, 3])])
     \<lparr>closed = False, sent = [], inbox = [[104], [1, 2, 3, 4, 5, 6, 7, 8, 9, 10]]\<rparr>
   = (Inl (Raised ValueError), \<lparr>closed = False, sent = [], inbox = []\<rparr>)"
    using exact [where p = "[1, 2, 3, 4, 5, 6, 7, 8, 9, 10]"
        and ch = "\<lparr>closed = False, sent = [],
                   inbox = [[104], [1, 2, 3, 4, 5, 6, 7, 8, 9, 10]]\<rparr>"]
    by (simp add: NPY_MAX_INTP_def)
  ultimately show ?thesis by simp
qed

text \<open>
  C1 as stated speaks of every shape, and fails in both directions. A negative dimension
  is not a size for \<^verbatim>\<open>reshape\<close> but a request to infer one: with the shape \<open>[-1, 3]\<close>
  and six bytes of \<^verbatim>\<open>uint8\<close> the product of the shape times the element size is \<open>-3\<close>,
  not the payload length, and an array of shape \<open>[2, 3]\<close> is returned. And a payload of
  exactly the length the shape asks for is refused when the shape is beyond the limits of
  the library: 65 dimensions of size 1 with one byte, and \<open>[2 ^ 62, 4, 0]\<close> with no bytes,
  whose product overflows before the zero is reached.
\<close>

theorem recv_array_infers_negative_dimension:
  "recv_array NumPy_2 (map_of [([104], header ''uint8'' [-1, 3])])
     \<lparr>closed = False, sent = [], inbox = [[104], [1, 2, 3, 4, 5, 6]]\<rparr>
   = (Inr \<lparr>dtype = ''uint8'', itemsize = 1, shape = [2, 3], data = [1, 2, 3, 4, 5, 6]\<rparr>,
      \<lparr>closed = False, sent = [], inbox = []\<rparr>)
   \<and> int (length [1, 2, 3, 4, 5, 6 :: byte]) \<noteq> prod_list [-1, 3] * int 1
   \<and> recv_array NumPy_2 (map_of [([104], header ''uint8'' (replicate 65 1))])
     \<lparr>closed = False, sent = [], inbox = [[104], [7]]\<rparr>
   = (Inl (Raised ValueError), \<lparr>closed = False, sent = [], inbox = []\<rparr>)
   \<and> int (length [7 :: byte]) = prod_list (replicate 65 1) * int 1
   \<and> recv_array NumPy_2 (map_of [([104], header ''uint8'' [2 ^ 62, 4, 0])])
     \<lparr>closed = False, sent = [], inbox = [[104], []]\<rparr>
   = (Inl (Raised ValueError), \<lparr>closed = False, sent = [], inbox = []\<rparr>)
   \<and> int (length ([] :: bytes)) = prod_list [2 ^ 62, 4, 0] * int 1"
  by (simp add: recv_array_def recv_json_def recv_def decode_array_def header_def
      frombuffer_def scalar_types_def reshape_def fix_unknown_dimension_def
      NPY_MAX_INTP_def prod_list_replicate)

text \<open>
  C7 as stated speaks of every valid pair of a dtype and a shape, a shape being valid when
  its dimensions are positive integers. A shape of 65 dimensions of size 1 is one, and a
  buffer of one byte matches it exactly, yet decoding raises \<^verbatim>\<open>ValueError\<close> under
  either release: the library has no array of that many dimensions.
\<close>

theorem decode_refuses_too_many_dimensions:
  "decode_array NumPy_1 (header ''uint8'' (replicate 65 1)) [7] = Inl (Raised ValueError)
   \<and> decode_array NumPy_2 (header ''uint8'' (replicate 65 1)) [7] = Inl (Raised ValueError)
   \<and> map_of scalar_types ''uint8'' = Some 1
   \<and> list_all (\<lambda>x. 0 < x) (replicate 65 (1 :: int))
   \<and> int (length [7 :: byte]) = prod_list (replicate 65 1) * int 1"
  by (simp add: decode_array_def header_def frombuffer_def scalar_types_def reshape_def
      prod_list_replicate list_all_iff)

text \<open>
  C7 (as amended). Round trip: for every registry dtype, every shape of at most
  \<^verbatim>\<open>NPY_MAXDIMS\<close> dimensions, all of them positive, and every buffer in memory of
  exactly product(shape) * element size bytes, decoding succeeds, and what a re-encoding
  of the array would write, its dtype, its shape and its bytes (\<^verbatim>\<open>tobytes\<close>), are the
  declared dtype, the declared shape and the buffer.
\<close>

theorem decode_round_trip:
  assumes "map_of scalar_types d = Some k"
    and "\<forall>x\<in>set ds. 0 < x"
    and "length ds \<le> NPY_MAXDIMS np"
    and "int (length buf) \<le> NPY_MAX_INTP"
    and "int (length buf) = prod_list ds * int k"
  shows "\<exists>A. decode_array np (header d ds) buf = Inr A \<and>
    dtype A = d \<and> shape A = ds \<and> tobytes A = buf"
  using decode_array_positive [OF assms(1,2,3,4)] assms(5)
  by (simp add: tobytes_def)

theorem decode_round_trip_witness:
  "\<exists>A. decode_array NumPy_2 (header ''uint16'' [2, 3]) [1, 2, 3, 4, 5, 6, 7, 8, 9, 10, 11, 12] = Inr A \<and>
     dtype A = ''uint16'' \<and> shape A = [2, 3] \<and>
     tobytes A = [1, 2, 3, 4, 5, 6, 7, 8, 9, 10, 11, 12]"
proof -
  have t: "map_of scalar_types ''uint16'' = Some 2"
    by (simp add: scalar_types_def)
  have pos: "\<forall>x\<in>set [2, 3 :: int]. 0 < x"
    by simp
  have dims: "length [2, 3 :: int] \<le> NPY_MAXDIMS NumPy_2"
    by simp
  have fits: "int (length [1, 2, 3, 4, 5, 6, 7, 8, 9, 10, 11, 12 :: byte]) \<le> NPY_MAX_INTP"
    by (simp add: NPY_MAX_INTP_def)
  have len: "int (length [1, 2, 3, 4, 5, 6, 7, 8, 9, 10, 11, 12 :: byte]) = prod_list [2, 3] * int 2"
    by simp
  from decode_round_trip [OF t pos dims fits len] show ?thesis .
qed

subsection \<open>Claims about \<^verbatim>\<open>step\<close>\<close>

text \<open>
  C2. For every action id that is not the value of a member of the action enumeration,
  \<^verbatim>\<open>step\<close> raises at once (\<^verbatim>\<open>ValueError\<close> from the enumeration lookup, the spec's
  InvalidAction) and leaves the session as it was: the lookup is evaluated while the
  argument of \<^verbatim>\<open>send_json\<close> is built, so no message is constructed and nothing is
  written. Whatever the action id, \<^verbatim>\<open>step\<close> writes either nothing or exactly one
  well-formed action command that names a member whose value is the id: no malformed
  command reaches the socket.
\<close>

theorem step_rejects_unknown_action:
  "(action \<notin> snd ` set Actions \<longrightarrow>
      step np Actions loads s action = (Inl (Raised ValueError), s))
   \<and> (sent (socket (snd (step np Actions loads s action))) = sent (socket s)
      \<or> (\<exists>n. (n, action) \<in> set Actions \<and>
            sent (socket (snd (step np Actions loads s action))) =
              sent (socket s) @ [JObj [(''command'', JStr ''action''), (''action'', JStr n)]]))"
proof (intro conjI impI)
  assume "action \<notin> snd ` set Actions"
  then show "step np Actions loads s action = (Inl (Raised ValueError), s)"
    by (simp add: step_def action_command_invalid)
next
  show "sent (socket (snd (step np Actions loads s action))) = sent (socket s)
      \<or> (\<exists>n. (n, action) \<in> set Actions \<and>
            sent (socket (snd (step np Actions loads s action))) =
              sent (socket s) @ [JObj [(''command'', JStr ''action''), (''action'', JStr n)]])"
  proof (cases "action_command Actions action")
    case (Inl e)
    then show ?thesis by (simp add: step_def)
  next
    case (Inr msg)
    from action_command_InrD [OF Inr] obtain n where n: "(n, action) \<in> set Actions"
      and msg: "msg = JObj [(''command'', JStr ''action''), (''action'', JStr n)]"
      by blast
    show ?thesis
    proof (cases "closed (socket s)")
      case True
      then show ?thesis
        using Inr by (simp add: step_def socket_send_json_def send_json_def)
    next
      case False
      have "sent (socket (snd (step np Actions loads s action))) = sent (socket s) @ [msg]"
        using Inr False
        by (auto simp: step_def socket_send_json_open recv_frame_def recv_array_def
            recv_json_def recv_def Let_def
            split: sum.splits prod.splits option.splits list.splits)
      with n msg show ?thesis by blast
    qed
  qed
qed

theorem step_rejects_unknown_action_witness:
  "8 \<notin> snd ` set MiniWorldEnv_Actions
   \<and> step NumPy_2 MiniWorldEnv_Actions example_loads example_bot 8 = (Inl (Raised ValueError), example_bot)
   \<and> sent (socket (snd (step NumPy_2 MiniWorldEnv_Actions example_loads example_bot 8)))
       = sent (socket example_bot)"
proof -
  have out: "8 \<notin> snd ` set MiniWorldEnv_Actions"
    by (simp add: MiniWorldEnv_Actions_def)
  with step_rejects_unknown_action [where np = NumPy_2 and action = 8
      and Actions = MiniWorldEnv_Actions and loads = example_loads and s = example_bot]
  have "step NumPy_2 MiniWorldEnv_Actions example_loads example_bot 8
      = (Inl (Raised ValueError), example_bot)"
    by blast
  with out show ?thesis by simp
qed

text \<open>
  C3. A \<^verbatim>\<open>step\<close> that returns, returns exactly the tuple (frame, 0, False, False, \{\})
  where the frame is the session's cached frame, the array decoded from the reply that
  this step took from the socket (its header and its payload). And it does return, with
  that tuple, for every valid action id on a session whose socket is open, whose step
  counter exists and whose next reply is a header that parses and a payload that decodes.
\<close>

theorem step_returns_frame_and_neutral_values:
  "(step np Actions loads s action = (Inr r, s') \<longrightarrow>
      (\<exists>A h p md.
         r = (A, 0, False, False, []) \<and> img s' = Some A \<and>
         inbox (socket s) = h # p # inbox (socket s') \<and> loads h = Some md \<and>
         decode_array np md p = Inr A))
   \<and> (action \<in> snd ` set Actions \<and> \<not> closed (socket s) \<and> step_count s = Some n \<and>
       inbox (socket s) = h0 # p0 # rest \<and> loads h0 = Some md0 \<and>
       decode_array np md0 p0 = Inr A0 \<longrightarrow>
      fst (step np Actions loads s action) = Inr (A0, 0, False, False, []) \<and>
      img (snd (step np Actions loads s action)) = Some A0)"
proof (intro conjI impI)
  assume st: "step np Actions loads s action = (Inr r, s')"
  from step_InrD [OF st] obtain msg n A ch'
    where rx: "recv_array np loads ((socket s)\<lparr>sent := sent (socket s) @ [msg]\<rparr>) = (Inr A, ch')"
      and r: "r = (A, 0, False, False, [])"
      and s': "s' = s\<lparr>socket := ch', step_count := Some (n + 1), img := Some A\<rparr>"
    by blast
  from recv_array_InrD [OF rx] obtain h p md
    where ch': "ch' = (socket s)\<lparr>sent := sent (socket s) @ [msg],
                                inbox := drop 2 (inbox (socket s))\<rparr>"
      and ib: "inbox (socket s) = h # p # drop 2 (inbox (socket s))"
      and md: "loads h = Some md" and dec: "decode_array np md p = Inr A"
    by auto
  from s' ch' have "inbox (socket s') = drop 2 (inbox (socket s))" and "img s' = Some A"
    by simp_all
  with r ib md dec show "\<exists>A h p md.
         r = (A, 0, False, False, []) \<and> img s' = Some A \<and>
         inbox (socket s) = h # p # inbox (socket s') \<and> loads h = Some md \<and>
         decode_array np md p = Inr A"
    by metis
next
  assume a: "action \<in> snd ` set Actions \<and> \<not> closed (socket s) \<and> step_count s = Some n \<and>
       inbox (socket s) = h0 # p0 # rest \<and> loads h0 = Some md0 \<and>
       decode_array np md0 p0 = Inr A0"
  then obtain msg where msg: "action_command Actions action = Inr msg"
    using action_command_valid by blast
  from a have n: "step_count s = Some n" and op: "\<not> closed (socket s)"
    and ib: "inbox (socket s) = h0 # p0 # rest" and md: "loads h0 = Some md0"
    and dec: "decode_array np md0 p0 = Inr A0"
    by simp_all
  note run = step_framed [where loads = loads, OF msg n op ib md]
  from run dec show "fst (step np Actions loads s action) = Inr (A0, 0, False, False, [])"
    by simp
  from run dec show "img (snd (step np Actions loads s action)) = Some A0"
    by simp
qed

theorem step_returns_frame_and_neutral_values_witness:
  "2 \<in> snd ` set MiniWorldEnv_Actions
   \<and> \<not> closed (socket example_bot) \<and> step_count example_bot = Some 0
   \<and> inbox (socket example_bot) = [[104], [6, 5, 4, 3, 2, 1]]
   \<and> example_loads [104] = Some (header ''uint8'' [1, 2, 3])
   \<and> fst (step NumPy_2 MiniWorldEnv_Actions example_loads example_bot 2)
       = Inr (\<lparr>dtype = ''uint8'', itemsize = 1, shape = [1, 2, 3], data = [6, 5, 4, 3, 2, 1]\<rparr>,
              0, False, False, [])
   \<and> (\<exists>r s' A h p md.
        step NumPy_2 MiniWorldEnv_Actions example_loads example_bot 2 = (Inr r, s') \<and>
        r = (A, 0, False, False, []) \<and> img s' = Some A \<and>
        inbox (socket example_bot) = h # p # inbox (socket s') \<and> example_loads h = Some md \<and>
        decode_array NumPy_2 md p = Inr A)"
proof -
  let ?A = "\<lparr>dtype = ''uint8'', itemsize = 1, shape = [1, 2, 3], data = [6, 5, 4, 3, 2, 1]\<rparr>"
  obtain r s' where st: "step NumPy_2 MiniWorldEnv_Actions example_loads example_bot 2 = (Inr r, s')"
    using example_step by blast
  have v: "2 \<in> snd ` set MiniWorldEnv_Actions"
    by (simp add: MiniWorldEnv_Actions_def)
  have dec: "decode_array NumPy_2 (header ''uint8'' [1, 2, 3]) [6, 5, 4, 3, 2, 1] = Inr ?A"
    by (simp add: example_decode)
  note c = step_returns_frame_and_neutral_values [where np = NumPy_2 and Actions = MiniWorldEnv_Actions
      and loads = example_loads and s = example_bot and action = 2 and r = r and s' = s'
      and n = 0 and ?h0.0 = "[104]" and ?p0.0 = "[6, 5, 4, 3, 2, 1]" and rest = "[]"
      and ?md0.0 = "header ''uint8'' [1, 2, 3]" and ?A0.0 = ?A]
  from c v example_bot_socket example_header dec
  have "fst (step NumPy_2 MiniWorldEnv_Actions example_loads example_bot 2)
      = Inr (?A, 0, False, False, [])"
    by simp
  moreover from c st
  have "\<exists>A h p md. r = (A, 0, False, False, []) \<and> img s' = Some A \<and>
        inbox (socket example_bot) = h # p # inbox (socket s') \<and> example_loads h = Some md \<and>
        decode_array NumPy_2 md p = Inr A"
    by blast
  ultimately show ?thesis
    using v example_bot_socket example_header st by blast
qed

text \<open>
  C9. A \<^verbatim>\<open>step\<close> that returns has incremented the step counter by exactly one and has
  assigned no attribute of the session but the cached frame and the step counter:
  \<^verbatim>\<open>obs_width\<close>, \<^verbatim>\<open>obs_height\<close>, the render mode and the window are as before, and
  the socket attribute is the same socket, as open as before, whose traffic has moved on
  by the one command written and the one reply (two messages) received. A \<^verbatim>\<open>reset\<close>
  that returns leaves the step counter at exactly 0, and likewise assigns nothing but the
  cached frame and the step counter.
\<close>

theorem step_and_reset_frame:
  "(step np Actions loads s action = (Inr r, s') \<longrightarrow>
      (\<exists>n A cmd.
         step_count s = Some n \<and> step_count s' = Some (n + 1) \<and>
         s' = s\<lparr>socket := (socket s)\<lparr>sent := sent (socket s) @ [cmd],
                                      inbox := drop 2 (inbox (socket s))\<rparr>,
                 step_count := Some (n + 1), img := Some A\<rparr>) \<and>
      obs_width s' = obs_width s \<and> obs_height s' = obs_height s \<and>
      render_mode s' = render_mode s \<and> window s' = window s \<and>
      closed (socket s') = closed (socket s))
   \<and> (reset np loads s = (Inr q, s'') \<longrightarrow>
      step_count s'' = Some 0 \<and>
      (\<exists>A. s'' = s\<lparr>socket := (socket s)\<lparr>sent := sent (socket s) @ [reset_command s],
                                         inbox := drop 2 (inbox (socket s))\<rparr>,
                    step_count := Some 0, img := Some A\<rparr>))"
proof (intro conjI impI)
  assume st: "step np Actions loads s action = (Inr r, s')"
  from step_InrD [OF st] obtain msg n A ch'
    where n: "step_count s = Some n"
      and rx: "recv_array np loads ((socket s)\<lparr>sent := sent (socket s) @ [msg]\<rparr>) = (Inr A, ch')"
      and s': "s' = s\<lparr>socket := ch', step_count := Some (n + 1), img := Some A\<rparr>"
    by blast
  from recv_array_InrD [OF rx]
  have ch': "ch' = (socket s)\<lparr>sent := sent (socket s) @ [msg],
                              inbox := drop 2 (inbox (socket s))\<rparr>"
    by simp
  from s' ch'
  have eq: "s' = s\<lparr>socket := (socket s)\<lparr>sent := sent (socket s) @ [msg],
                                       inbox := drop 2 (inbox (socket s))\<rparr>,
                  step_count := Some (n + 1), img := Some A\<rparr>"
    by simp
  then have "step_count s' = Some (n + 1)" by simp
  with n eq show "\<exists>n A cmd.
         step_count s = Some n \<and> step_count s' = Some (n + 1) \<and>
         s' = s\<lparr>socket := (socket s)\<lparr>sent := sent (socket s) @ [cmd],
                                      inbox := drop 2 (inbox (socket s))\<rparr>,
                 step_count := Some (n + 1), img := Some A\<rparr>"
    by blast
  from eq show "obs_width s' = obs_width s" by simp
  from eq show "obs_height s' = obs_height s" by simp
  from eq show "render_mode s' = render_mode s" by simp
  from eq show "window s' = window s" by simp
  from eq show "closed (socket s') = closed (socket s)" by simp
next
  assume rs: "reset np loads s = (Inr q, s'')"
  from reset_InrD [OF rs] obtain A ch'
    where rx: "recv_array np loads ((socket s)\<lparr>sent := sent (socket s) @ [reset_command s]\<rparr>)
        = (Inr A, ch')"
      and s'': "s'' = s\<lparr>socket := ch', step_count := Some 0, img := Some A\<rparr>"
    by blast
  from recv_array_InrD [OF rx]
  have ch': "ch' = (socket s)\<lparr>sent := sent (socket s) @ [reset_command s],
                              inbox := drop 2 (inbox (socket s))\<rparr>"
    by simp
  from s'' show "step_count s'' = Some 0" by simp
  from s'' ch' show "\<exists>A. s'' = s\<lparr>socket := (socket s)\<lparr>sent := sent (socket s) @ [reset_command s],
                                         inbox := drop 2 (inbox (socket s))\<rparr>,
                    step_count := Some 0, img := Some A\<rparr>"
    by blast
qed

theorem step_and_reset_frame_witness:
  "(\<exists>r s'. step NumPy_2 MiniWorldEnv_Actions example_loads example_bot 2 = (Inr r, s') \<and>
      step_count example_bot = Some 0 \<and> step_count s' = Some 1 \<and>
      obs_width s' = obs_width example_bot \<and> obs_height s' = obs_height example_bot \<and>
      render_mode s' = render_mode example_bot \<and> window s' = window example_bot \<and>
      closed (socket s') = closed (socket example_bot))
   \<and> (\<exists>q s''. reset NumPy_2 example_loads example_bot = (Inr q, s'') \<and> step_count s'' = Some 0)"
proof -
  obtain r s' where st: "step NumPy_2 MiniWorldEnv_Actions example_loads example_bot 2 = (Inr r, s')"
    using example_step by blast
  obtain q s'' where rs: "reset NumPy_2 example_loads example_bot = (Inr q, s'')"
    using example_reset by blast
  note frame = step_and_reset_frame [where np = NumPy_2 and Actions = MiniWorldEnv_Actions
      and loads = example_loads and s = example_bot and action = 2
      and r = r and s' = s' and q = q and s'' = s'']
  from frame st obtain n where n: "step_count example_bot = Some n"
    and n': "step_count s' = Some (n + 1)"
    and same: "obs_width s' = obs_width example_bot" "obs_height s' = obs_height example_bot"
      "render_mode s' = render_mode example_bot" "window s' = window example_bot"
      "closed (socket s') = closed (socket example_bot)"
    by blast
  from n example_bot_socket(3) have "n = 0" by simp
  with n' have "step_count s' = Some 1" by simp
  moreover from frame rs have "step_count s'' = Some 0" by blast
  ultimately show ?thesis
    using st rs same example_bot_socket(3) by blast
qed

subsection \<open>Claims about the session's life cycle\<close>

text \<open>
  C8. A constructor that returns has performed one full reset request and reply: the
  socket's log holds exactly the reset command with the constructor's width and height,
  the first two messages of the peer (a header that parsed and its payload) have been
  received, the step counter is 0, and the cached frame is the array decoded from them.
  With a peer whose first reply is a header that parses and a payload that decodes, the
  constructor does return, with that array cached; with a peer that delivers nothing it
  does not return: it blocks in the receive. After every \<^verbatim>\<open>reset\<close> and every \<^verbatim>\<open>step\<close> that returns, the cached frame is
  the array decoded from the reply that call received.
\<close>

theorem constructor_performs_reset:
  "(RemoteBot_init np Actions loads zmq peer serverAddr serverPort w ht mode = Inr s \<longrightarrow>
      sent (socket s) = [JObj [(''command'', JStr ''reset''),
                               (''obs_width'', JInt w), (''obs_height'', JInt ht)]] \<and>
      step_count s = Some 0 \<and>
      (\<exists>h p md A. peer = h # p # inbox (socket s) \<and> loads h = Some md \<and>
         decode_array np md p = Inr A \<and> img s = Some A))
   \<and> (zmq \<and> peer = h0 # p0 # rest \<and> loads h0 = Some md0 \<and> decode_array np md0 p0 = Inr A0 \<longrightarrow>
      (\<exists>s. RemoteBot_init np Actions loads zmq peer serverAddr serverPort w ht mode = Inr s \<and>
         img s = Some A0 \<and> inbox (socket s) = rest))
   \<and> (zmq \<longrightarrow> RemoteBot_init np Actions loads zmq [] serverAddr serverPort w ht mode = Inl Blocked)
   \<and> (reset np loads s0 = (Inr q, s1) \<longrightarrow>
      (\<exists>h p md A. inbox (socket s0) = h # p # inbox (socket s1) \<and> loads h = Some md \<and>
         decode_array np md p = Inr A \<and> img s1 = Some A))
   \<and> (step np Actions loads s0 action = (Inr r, s2) \<longrightarrow>
      (\<exists>h p md A. inbox (socket s0) = h # p # inbox (socket s2) \<and> loads h = Some md \<and>
         decode_array np md p = Inr A \<and> img s2 = Some A))"
proof (intro conjI impI)
  let ?ch = "pair_connect serverAddr serverPort peer"
  let ?a = "init_attributes Actions w ht mode ?ch"
  assume init: "RemoteBot_init np Actions loads zmq peer serverAddr serverPort w ht mode = Inr s"
  then obtain q' where rs: "reset np loads ?a = (Inr q', s)"
    by (auto simp: RemoteBot_init_def split: if_splits prod.splits sum.splits)
  from reset_InrD [OF rs] obtain A ch'
    where rx: "recv_array np loads ((socket ?a)\<lparr>sent := sent (socket ?a) @ [reset_command ?a]\<rparr>)
        = (Inr A, ch')"
      and s: "s = ?a\<lparr>socket := ch', step_count := Some 0, img := Some A\<rparr>"
    by blast
  from recv_array_InrD [OF rx] obtain h p md
    where ch': "ch' = (socket ?a)\<lparr>sent := sent (socket ?a) @ [reset_command ?a],
                                 inbox := drop 2 (inbox (socket ?a))\<rparr>"
      and ib: "inbox (socket ?a) = h # p # drop 2 (inbox (socket ?a))"
      and md: "loads h = Some md" and dec: "decode_array np md p = Inr A"
    by auto
  have a_sock: "socket ?a = \<lparr>closed = False, sent = [], inbox = peer\<rparr>"
    by (simp add: init_attributes_def pair_connect_def)
  have a_cmd: "reset_command ?a = JObj [(''command'', JStr ''reset''),
      (''obs_width'', JInt w), (''obs_height'', JInt ht)]"
    by (simp add: reset_command_def init_attributes_def)
  from s ch' a_sock a_cmd
  show "sent (socket s) = [JObj [(''command'', JStr ''reset''),
      (''obs_width'', JInt w), (''obs_height'', JInt ht)]]"
    by simp
  from s show "step_count s = Some 0" by simp
  from s ch' a_sock have "inbox (socket s) = drop 2 peer" and "img s = Some A"
    by simp_all
  moreover from ib a_sock have "peer = h # p # drop 2 peer" by simp
  ultimately show "\<exists>h p md A. peer = h # p # inbox (socket s) \<and> loads h = Some md \<and>
      decode_array np md p = Inr A \<and> img s = Some A"
    using md dec by metis
next
  let ?a = "init_attributes Actions w ht mode (pair_connect serverAddr serverPort peer)"
  assume a: "zmq \<and> peer = h0 # p0 # rest \<and> loads h0 = Some md0 \<and> decode_array np md0 p0 = Inr A0"
  then have op: "\<not> closed (socket ?a)" and ib: "inbox (socket ?a) = h0 # p0 # rest"
    and md: "loads h0 = Some md0" and dec: "decode_array np md0 p0 = Inr A0"
    by (simp_all add: init_attributes_def pair_connect_def)
  note run = reset_framed [where loads = loads, OF op ib md]
  from a run dec
  show "\<exists>s. RemoteBot_init np Actions loads zmq peer serverAddr serverPort w ht mode = Inr s \<and>
      img s = Some A0 \<and> inbox (socket s) = rest"
    by (simp add: RemoteBot_init_def)
next
  assume zmq
  then show "RemoteBot_init np Actions loads zmq [] serverAddr serverPort w ht mode = Inl Blocked"
    by (simp add: RemoteBot_init_def reset_def Let_def init_attributes_def pair_connect_def
        socket_send_json_def send_json_def recv_frame_def recv_array_def recv_json_def recv_def)
next
  assume rs: "reset np loads s0 = (Inr q, s1)"
  from reset_InrD [OF rs] obtain A ch'
    where rx: "recv_array np loads ((socket s0)\<lparr>sent := sent (socket s0) @ [reset_command s0]\<rparr>)
        = (Inr A, ch')"
      and s1: "s1 = s0\<lparr>socket := ch', step_count := Some 0, img := Some A\<rparr>"
    by blast
  from recv_array_InrD [OF rx] obtain h p md
    where ch': "ch' = (socket s0)\<lparr>sent := sent (socket s0) @ [reset_command s0],
                                 inbox := drop 2 (inbox (socket s0))\<rparr>"
      and ib: "inbox (socket s0) = h # p # drop 2 (inbox (socket s0))"
      and md: "loads h = Some md" and dec: "decode_array np md p = Inr A"
    by auto
  from s1 ch' have "inbox (socket s1) = drop 2 (inbox (socket s0))" and "img s1 = Some A"
    by simp_all
  with ib md dec
  show "\<exists>h p md A. inbox (socket s0) = h # p # inbox (socket s1) \<and> loads h = Some md \<and>
      decode_array np md p = Inr A \<and> img s1 = Some A"
    by metis
next
  assume st: "step np Actions loads s0 action = (Inr r, s2)"
  from step_InrD [OF st] obtain msg n A ch'
    where rx: "recv_array np loads ((socket s0)\<lparr>sent := sent (socket s0) @ [msg]\<rparr>) = (Inr A, ch')"
      and s2: "s2 = s0\<lparr>socket := ch', step_count := Some (n + 1), img := Some A\<rparr>"
    by blast
  from recv_array_InrD [OF rx] obtain h p md
    where ch': "ch' = (socket s0)\<lparr>sent := sent (socket s0) @ [msg],
                                 inbox := drop 2 (inbox (socket s0))\<rparr>"
      and ib: "inbox (socket s0) = h # p # drop 2 (inbox (socket s0))"
      and md: "loads h = Some md" and dec: "decode_array np md p = Inr A"
    by auto
  from s2 ch' have "inbox (socket s2) = drop 2 (inbox (socket s0))" and "img s2 = Some A"
    by simp_all
  with ib md dec
  show "\<exists>h p md A. inbox (socket s0) = h # p # inbox (socket s2) \<and> loads h = Some md \<and>
      decode_array np md p = Inr A \<and> img s2 = Some A"
    by metis
qed

theorem constructor_performs_reset_witness:
  "example_peer = [104] # [1, 2, 3, 4, 5, 6] # [[104], [6, 5, 4, 3, 2, 1]]
   \<and> example_loads [104] = Some (header ''uint8'' [1, 2, 3])
   \<and> RemoteBot_init NumPy_2 MiniWorldEnv_Actions example_loads True example_peer
      ''minibot1.local'' SERVER_PORT 2 1 None = Inr example_bot
   \<and> sent (socket example_bot) = [JObj [(''command'', JStr ''reset''),
        (''obs_width'', JInt 2), (''obs_height'', JInt 1)]]
   \<and> step_count example_bot = Some 0
   \<and> img example_bot = Some \<lparr>dtype = ''uint8'', itemsize = 1, shape = [1, 2, 3],
        data = [1, 2, 3, 4, 5, 6]\<rparr>
   \<and> (\<exists>h p md A. example_peer = h # p # inbox (socket example_bot) \<and>
         example_loads h = Some md \<and> decode_array NumPy_2 md p = Inr A \<and> img example_bot = Some A)
   \<and> RemoteBot_init NumPy_2 MiniWorldEnv_Actions example_loads True []
      ''minibot1.local'' SERVER_PORT 2 1 None = Inl Blocked
   \<and> (\<exists>q s1 A. reset NumPy_2 example_loads example_bot = (Inr q, s1) \<and> img s1 = Some A)
   \<and> (\<exists>r s2 A. step NumPy_2 MiniWorldEnv_Actions example_loads example_bot 2 = (Inr r, s2) \<and>
         img s2 = Some A)"
proof -
  let ?A = "\<lparr>dtype = ''uint8'', itemsize = 1, shape = [1, 2, 3], data = [1, 2, 3, 4, 5, 6]\<rparr>"
  obtain r s2 where st: "step NumPy_2 MiniWorldEnv_Actions example_loads example_bot 2 = (Inr r, s2)"
    using example_step by blast
  obtain q s1 where rs: "reset NumPy_2 example_loads example_bot = (Inr q, s1)"
    using example_reset by blast
  have peer: "example_peer = [104] # [1, 2, 3, 4, 5, 6] # [[104], [6, 5, 4, 3, 2, 1]]"
    by (simp add: example_peer_def)
  have dec: "decode_array NumPy_2 (header ''uint8'' [1, 2, 3]) [1, 2, 3, 4, 5, 6] = Inr ?A"
    by (simp add: example_decode)
  note c = constructor_performs_reset [where np = NumPy_2 and Actions = MiniWorldEnv_Actions
      and loads = example_loads and zmq = True and peer = example_peer
      and serverAddr = "''minibot1.local''" and serverPort = SERVER_PORT
      and w = 2 and ht = 1 and mode = None and s = example_bot
      and ?s0.0 = example_bot and q = q and ?s1.0 = s1 and action = 2 and r = r and ?s2.0 = s2
      and ?h0.0 = "[104]" and ?p0.0 = "[1, 2, 3, 4, 5, 6]"
      and rest = "[[104], [6, 5, 4, 3, 2, 1]]"
      and ?md0.0 = "header ''uint8'' [1, 2, 3]" and ?A0.0 = ?A]
  from c peer example_header dec example_bot_constructed
  have "img example_bot = Some ?A"
    by simp
  with c peer example_header example_bot_constructed st rs show ?thesis
    by blast
qed










text \<open>
  Neither \<^verbatim>\<open>step\<close> nor \<^verbatim>\<open>reset\<close> reads the window.
\<close>

lemma step_ignores_window:
  "fst (step np Actions loads (s\<lparr>window := x\<rparr>) action) = fst (step np Actions loads s action)"
  by (simp add: step_def Let_def socket_send_json_def send_json_def recv_frame_def
      split: sum.splits prod.splits option.splits)

lemma reset_ignores_window:
  "fst (reset np loads (s\<lparr>window := x\<rparr>)) = fst (reset np loads s)"
  by (simp add: reset_def Let_def socket_send_json_def send_json_def recv_frame_def
      reset_command_def split: sum.splits prod.splits option.splits)

text \<open>
  C6 as stated has \<^verbatim>\<open>close\<close> release the socket. On the constructed session, with or
  without a display window, the socket is as open after \<^verbatim>\<open>close\<close> as before; only the
  window, when there is one, is closed.
\<close>

theorem close_leaves_socket_open:
  "\<not> closed (socket (close example_bot))
   \<and> \<not> closed (socket (close (example_bot\<lparr>window :=
          Some \<lparr>win_width = WINDOW_WIDTH, win_height = WINDOW_HEIGHT, win_closed = False\<rparr>\<rparr>)))
   \<and> window (close (example_bot\<lparr>window :=
          Some \<lparr>win_width = WINDOW_WIDTH, win_height = WINDOW_HEIGHT, win_closed = False\<rparr>\<rparr>))
       = Some \<lparr>win_width = WINDOW_WIDTH, win_height = WINDOW_HEIGHT, win_closed = True\<rparr>"
  by (simp add: close_def example_bot_def init_attributes_def)

text \<open>
  C6 (as amended). \<^verbatim>\<open>close\<close> is callable in every state of the session and never
  raises; it closes the display window when one was created and changes nothing else. The
  socket is untouched, so the session is as connected as before: \<^verbatim>\<open>step\<close> and
  \<^verbatim>\<open>reset\<close> on the closed session have the outcome they have on the session itself.
\<close>

theorem close_only_closes_window:
  "close s = s\<lparr>window := map_option (\<lambda>w. w\<lparr>win_closed := True\<rparr>) (window s)\<rparr>
   \<and> socket (close s) = socket s
   \<and> fst (step np Actions loads (close s) action) = fst (step np Actions loads s action)
   \<and> fst (reset np loads (close s)) = fst (reset np loads s)"
proof -
  have eq: "close s = s\<lparr>window := map_option (\<lambda>w. w\<lparr>win_closed := True\<rparr>) (window s)\<rparr>"
    by (cases "window s") (simp_all add: close_def)
  then have "socket (close s) = socket s"
    by simp
  moreover have "fst (step np Actions loads (close s) action) = fst (step np Actions loads s action)"
    by (simp only: eq step_ignores_window)
  moreover have "fst (reset np loads (close s)) = fst (reset np loads s)"
    by (simp only: eq reset_ignores_window)
  ultimately show ?thesis
    using eq by simp
qed

text \<open>
  C4. On a session of observation width 80 and height 60 with an open socket,
  \<^verbatim>\<open>reset\<close> writes exactly the message
  \<^verbatim>\<open>{"command": "reset", "obs_width": 80, "obs_height": 60}\<close>. When the reply is the
  header \<^verbatim>\<open>{"dtype": "uint8", "shape": [60, 80, 3]}\<close> followed by a payload of 14400
  bytes, \<^verbatim>\<open>reset\<close> returns the array of shape (60, 80, 3) over these bytes and caches
  it; when the payload has only 14000 bytes, \<^verbatim>\<open>reset\<close> raises \<^verbatim>\<open>ValueError\<close> (the
  spec's SizeMismatch) and no frame is cached.
\<close>

theorem reset_80_by_60:
  assumes "obs_width s = 80" and "obs_height s = 60"
    and "\<not> closed (socket s)"
    and "inbox (socket s) = h # p # rest"
    and "loads h = Some (header ''uint8'' [60, 80, 3])"
  shows "(length p = 14400 \<longrightarrow>
      reset np loads s =
        (Inr (\<lparr>dtype = ''uint8'', itemsize = 1, shape = [60, 80, 3], data = p\<rparr>, []),
         s\<lparr>socket := (socket s)
               \<lparr>sent := sent (socket s) @
                  [JObj [(''command'', JStr ''reset''),
                         (''obs_width'', JInt 80), (''obs_height'', JInt 60)]],
                inbox := rest\<rparr>,
           step_count := Some 0,
           img := Some \<lparr>dtype = ''uint8'', itemsize = 1, shape = [60, 80, 3], data = p\<rparr>\<rparr>))
   \<and> (length p = 14000 \<longrightarrow>
      reset np loads s =
        (Inl (Raised ValueError),
         s\<lparr>socket := (socket s)
               \<lparr>sent := sent (socket s) @
                  [JObj [(''command'', JStr ''reset''),
                         (''obs_width'', JInt 80), (''obs_height'', JInt 60)]],
                inbox := rest\<rparr>,
           step_count := Some 0\<rparr>))"
proof -
  have t: "map_of scalar_types ''uint8'' = Some 1"
    by (simp add: scalar_types_def)
  have pos: "\<forall>x\<in>set [60, 80, 3 :: int]. 0 < x"
    by simp
  have dims: "length [60, 80, 3 :: int] \<le> NPY_MAXDIMS np"
    by (cases np) simp_all
  have dec: "decode_array np (header ''uint8'' [60, 80, 3]) p =
      (if int (length p) = 14400
       then Inr \<lparr>dtype = ''uint8'', itemsize = 1, shape = [60, 80, 3], data = p\<rparr>
       else Inl (Raised ValueError))" if "int (length p) \<le> NPY_MAX_INTP"
    using decode_array_positive [OF t pos dims that] by simp
  have cmd: "reset_command s = JObj [(''command'', JStr ''reset''),
      (''obs_width'', JInt 80), (''obs_height'', JInt 60)]"
    using assms(1,2) by (simp add: reset_command_def)
  note rs = reset_framed [where loads = loads, OF assms(3) assms(4) assms(5)]
  show ?thesis
  proof (intro conjI impI)
    assume len: "length p = 14400"
    then have "int (length p) \<le> NPY_MAX_INTP"
      by (simp add: NPY_MAX_INTP_def)
    from dec [OF this] len show "reset np loads s =
        (Inr (\<lparr>dtype = ''uint8'', itemsize = 1, shape = [60, 80, 3], data = p\<rparr>, []),
         s\<lparr>socket := (socket s)
               \<lparr>sent := sent (socket s) @
                  [JObj [(''command'', JStr ''reset''),
                         (''obs_width'', JInt 80), (''obs_height'', JInt 60)]],
                inbox := rest\<rparr>,
           step_count := Some 0,
           img := Some \<lparr>dtype = ''uint8'', itemsize = 1, shape = [60, 80, 3], data = p\<rparr>\<rparr>)"
      by (simp add: rs cmd)
  next
    assume len: "length p = 14000"
    then have "int (length p) \<le> NPY_MAX_INTP"
      by (simp add: NPY_MAX_INTP_def)
    from dec [OF this] len show "reset np loads s =
        (Inl (Raised ValueError),
         s\<lparr>socket := (socket s)
               \<lparr>sent := sent (socket s) @
                  [JObj [(''command'', JStr ''reset''),
                         (''obs_width'', JInt 80), (''obs_height'', JInt 60)]],
                inbox := rest\<rparr>,
           step_count := Some 0\<rparr>)"
      by (simp add: rs cmd)
  qed
qed

theorem reset_80_by_60_witness:
  "reset NumPy_2 (map_of [([104], header ''uint8'' [60, 80, 3])])
     (init_attributes MiniWorldEnv_Actions 80 60 None
        \<lparr>closed = False, sent = [], inbox = [[104], replicate 14400 0]\<rparr>)
   = (Inr (\<lparr>dtype = ''uint8'', itemsize = 1, shape = [60, 80, 3],
            data = replicate 14400 0\<rparr>, []),
      (init_attributes MiniWorldEnv_Actions 80 60 None
        \<lparr>closed = False,
         sent = [JObj [(''command'', JStr ''reset''),
                       (''obs_width'', JInt 80), (''obs_height'', JInt 60)]],
         inbox = []\<rparr>)
      \<lparr>step_count := Some 0,
       img := Some \<lparr>dtype = ''uint8'', itemsize = 1, shape = [60, 80, 3],
                    data = replicate 14400 0\<rparr>\<rparr>)
   \<and> reset NumPy_2 (map_of [([104], header ''uint8'' [60, 80, 3])])
     (init_attributes MiniWorldEnv_Actions 80 60 None
        \<lparr>closed = False, sent = [], inbox = [[104], replicate 14000 0]\<rparr>)
   = (Inl (Raised ValueError),
      (init_attributes MiniWorldEnv_Actions 80 60 None
        \<lparr>closed = False,
         sent = [JObj [(''command'', JStr ''reset''),
                       (''obs_width'', JInt 80), (''obs_height'', JInt 60)]],
         inbox = []\<rparr>)
      \<lparr>step_count := Some 0\<rparr>)"
proof -
  let ?loads = "map_of [([104 :: byte], header ''uint8'' [60, 80, 3])]"
  let ?s = "\<lambda>p. init_attributes MiniWorldEnv_Actions 80 60 None
        \<lparr>closed = False, sent = [], inbox = [[104], p]\<rparr>"
  have a: "obs_width (?s p) = 80" "obs_height (?s p) = 60" "\<not> closed (socket (?s p))"
    "inbox (socket (?s p)) = [104] # p # []" for p
    by (simp_all add: init_attributes_def)
  have l: "?loads [104] = Some (header ''uint8'' [60, 80, 3])"
    by simp
  note good = reset_80_by_60 [where np = NumPy_2 and loads = ?loads and s = "?s (replicate 14400 0)"
      and h = "[104]" and p = "replicate 14400 0" and rest = "[]", OF a l]
  note bad = reset_80_by_60 [where np = NumPy_2 and loads = ?loads and s = "?s (replicate 14000 0)"
      and h = "[104]" and p = "replicate 14000 0" and rest = "[]", OF a l]
  from good have 1: "reset NumPy_2 ?loads (?s (replicate 14400 0))
   = (Inr (\<lparr>dtype = ''uint8'', itemsize = 1, shape = [60, 80, 3],
            data = replicate 14400 0\<rparr>, []),
      (init_attributes MiniWorldEnv_Actions 80 60 None
        \<lparr>closed = False,
         sent = [JObj [(''command'', JStr ''reset''),
                       (''obs_width'', JInt 80), (''obs_height'', JInt 60)]],
         inbox = []\<rparr>)
      \<lparr>step_count := Some 0,
       img := Some \<lparr>dtype = ''uint8'', itemsize = 1, shape = [60, 80, 3],
                    data = replicate 14400 0\<rparr>\<rparr>)"
    by (simp add: init_attributes_def)
  from bad have 2: "reset NumPy_2 ?loads (?s (replicate 14000 0))
   = (Inl (Raised ValueError),
      (init_attributes MiniWorldEnv_Actions 80 60 None
        \<lparr>closed = False,
         sent = [JObj [(''command'', JStr ''reset''),
                       (''obs_width'', JInt 80), (''obs_height'', JInt 60)]],
         inbox = []\<rparr>)
      \<lparr>step_count := Some 0\<rparr>)"
    by (simp add: init_attributes_def)
  from 1 2 show ?thesis by simp
qed

subsection \<open>Claims about the simulated environments\<close>

text \<open>
  With \<^verbatim>\<open>move_forward\<close> the third member, of value 2, the movement statement sets the
  action space to \<open>Discrete 3\<close>, whose elements are the values of the first three members.
\<close>

lemma allow_movement_first_three:
  assumes "take 3 (sim_actions e) =
      [(''turn_left'', 0), (''turn_right'', 1), (''move_forward'', 2)]"
  shows "allow_movement e = Inr (e\<lparr>sim_action_space := Discrete 3\<rparr>)"
proof -
  from assms obtain rest where "sim_actions e =
      [(''turn_left'', 0), (''turn_right'', 1), (''move_forward'', 2)] @ rest"
    by (metis append_take_drop_id)
  then have "map_of (sim_actions e) ''move_forward'' = Some 2"
    by simp
  then show ?thesis
    by (simp add: allow_movement_def enum_getattr_def)
qed

lemma Discrete_3_first_three:
  assumes "take 3 E = [(''turn_left'', 0), (''turn_right'', 1), (''move_forward'', 2)]"
  shows "contains (Discrete 3) x \<longleftrightarrow> x \<in> snd ` set (take 3 E)"
  using assms by auto

text \<open>
  C10. Let the object that the constructor of \<^verbatim>\<open>MiniWorldEnv\<close> leaves have an action
  enumeration whose first three members are \<^verbatim>\<open>turn_left = 0\<close>, \<^verbatim>\<open>turn_right = 1\<close> and
  \<^verbatim>\<open>move_forward = 2\<close> (the numbering of the action tables in the three docstrings),
  followed by any further members. Then the constructors of \<^verbatim>\<open>Hallway\<close> (for a length
  of at least 2), \<^verbatim>\<open>ThreeRooms\<close> and \<^verbatim>\<open>SimToRealGoTo\<close> each return that object with
  the action space \<open>Discrete 3\<close> and nothing else changed, and the elements of
  \<open>Discrete 3\<close> are exactly the values of the first three members of the enumeration.
\<close>

theorem movement_action_space:
  assumes "take 3 (sim_actions e) =
      [(''turn_left'', 0), (''turn_right'', 1), (''move_forward'', 2)]"
  shows "(2 \<le> len \<and> super_init 250 None None = Inr e \<longrightarrow>
      Hallway_init super_init len =
        Inr ((sim_env.extend e (hallway.fields len))\<lparr>sim_action_space := Discrete 3\<rparr>))
   \<and> (super_init 400 None None = Inr e \<longrightarrow>
      ThreeRooms_init super_init = Inr (e\<lparr>sim_action_space := Discrete 3\<rparr>))
   \<and> (super_init 100 (Some sim_params) (Some True) = Inr e \<longrightarrow>
      SimToRealGoTo_init super_init sim_params = Inr (e\<lparr>sim_action_space := Discrete 3\<rparr>))
   \<and> (\<forall>x. contains (Discrete 3) x \<longleftrightarrow> x \<in> snd ` set (take 3 (sim_actions e)))"
proof (intro conjI impI allI)
  assume h: "2 \<le> len \<and> super_init 250 None None = Inr e"
  have "sim_actions (sim_env.extend e (hallway.fields len)) = sim_actions e"
    by (simp add: sim_env.defs)
  with assms
  have "allow_movement (sim_env.extend e (hallway.fields len)) =
      Inr ((sim_env.extend e (hallway.fields len))\<lparr>sim_action_space := Discrete 3\<rparr>)"
    by (intro allow_movement_first_three) simp
  with h show "Hallway_init super_init len =
      Inr ((sim_env.extend e (hallway.fields len))\<lparr>sim_action_space := Discrete 3\<rparr>)"
    by (simp add: Hallway_init_def)
next
  assume "super_init 400 None None = Inr e"
  with allow_movement_first_three [OF assms]
  show "ThreeRooms_init super_init = Inr (e\<lparr>sim_action_space := Discrete 3\<rparr>)"
    by (simp add: ThreeRooms_init_def)
next
  assume "super_init 100 (Some sim_params) (Some True) = Inr e"
  with allow_movement_first_three [OF assms]
  show "SimToRealGoTo_init super_init sim_params = Inr (e\<lparr>sim_action_space := Discrete 3\<rparr>)"
    by (simp add: SimToRealGoTo_init_def)
next
  fix x
  show "contains (Discrete 3) x \<longleftrightarrow> x \<in> snd ` set (take 3 (sim_actions e))"
    by (rule Discrete_3_first_three [OF assms])
qed

theorem movement_action_space_witness:
  "Hallway_init (\<lambda>m (p :: unit option) d. Inr \<lparr>sim_actions = MiniWorldEnv_Actions,
        sim_action_space = Discrete 8, sim_max_episode_steps = m\<rparr>) 12
     = Inr \<lparr>sim_actions = MiniWorldEnv_Actions, sim_action_space = Discrete 3,
            sim_max_episode_steps = 250, hall_length = 12\<rparr>
   \<and> ThreeRooms_init (\<lambda>m (p :: unit option) d. Inr \<lparr>sim_actions = MiniWorldEnv_Actions,
        sim_action_space = Discrete 8, sim_max_episode_steps = m\<rparr>)
     = Inr \<lparr>sim_actions = MiniWorldEnv_Actions, sim_action_space = Discrete 3,
            sim_max_episode_steps = 400\<rparr>
   \<and> SimToRealGoTo_init (\<lambda>m (p :: unit option) d. Inr \<lparr>sim_actions = MiniWorldEnv_Actions,
        sim_action_space = Discrete 8, sim_max_episode_steps = m\<rparr>) ()
     = Inr \<lparr>sim_actions = MiniWorldEnv_Actions, sim_action_space = Discrete 3,
            sim_max_episode_steps = 100\<rparr>
   \<and> length MiniWorldEnv_Actions = 8
   \<and> {x. contains (Discrete 3) x} = {0, 1, 2}"
proof -
  let ?base = "\<lambda>m (p :: unit option) (d :: bool option).
      (Inr \<lparr>sim_actions = MiniWorldEnv_Actions, sim_action_space = Discrete 8,
            sim_max_episode_steps = m\<rparr> :: stop + sim_env)"
  let ?e = "\<lambda>m. \<lparr>sim_actions = MiniWorldEnv_Actions, sim_action_space = Discrete 8,
      sim_max_episode_steps = m\<rparr>"
  have first: "take 3 (sim_actions (?e m)) =
      [(''turn_left'', 0), (''turn_right'', 1), (''move_forward'', 2)]" for m
    by (simp add: MiniWorldEnv_Actions_def)
  note h = movement_action_space [where e = "?e 250" and super_init = ?base and len = 12
      and sim_params = "()", OF first]
  note t = movement_action_space [where e = "?e 400" and super_init = ?base and len = 12
      and sim_params = "()", OF first]
  note g = movement_action_space [where e = "?e 100" and super_init = ?base and len = 12
      and sim_params = "()", OF first]
  from h have 1: "Hallway_init ?base 12
     = Inr \<lparr>sim_actions = MiniWorldEnv_Actions, sim_action_space = Discrete 3,
            sim_max_episode_steps = 250, hall_length = 12\<rparr>"
    by (simp add: sim_env.defs hallway.defs)
  from t have 2: "ThreeRooms_init ?base
     = Inr \<lparr>sim_actions = MiniWorldEnv_Actions, sim_action_space = Discrete 3,
            sim_max_episode_steps = 400\<rparr>"
    by simp
  from g have 3: "SimToRealGoTo_init ?base ()
     = Inr \<lparr>sim_actions = MiniWorldEnv_Actions, sim_action_space = Discrete 3,
            sim_max_episode_steps = 100\<rparr>"
    by simp
  have 4: "length MiniWorldEnv_Actions = 8"
    by (simp add: MiniWorldEnv_Actions_def)
  from h have 5: "{x. contains (Discrete 3) x} = {0, 1, 2}"
    by (auto simp: MiniWorldEnv_Actions_def)
  from 1 2 3 4 5 show ?thesis by simp
qed

end
